theory Spec2Isabelle
  imports Main "HOL-Library.Finite_Map" "HOL-Library.Word"
begin

section \<open>Kingdom-System: the Mikhail authentication service\<close>

text \<open>
  A shallow embedding of the token engine of \<^verbatim>\<open>Services/Mikhail\<close>: the in-memory storage,
  the rate limiter, the rotation worker, the upstream refresh client and the handlers
  \<^verbatim>\<open>RefreshToken\<close>, \<^verbatim>\<open>SignUp\<close> and \<^verbatim>\<open>SignIn\<close> of \<^verbatim>\<open>server.go\<close>, the token generators of
  \<^verbatim>\<open>security.go\<close>, and \<^verbatim>\<open>encrypt\<close> and \<^verbatim>\<open>decrypt\<close> of the Redis storage.

  Go maps are finite maps. A \<^verbatim>\<open>time.Time\<close> is a count of nanoseconds: \<^verbatim>\<open>After\<close> is \<open>>\<close> and
  \<^verbatim>\<open>Add\<close> is \<open>+\<close>. A \<^verbatim>\<open>nil\<close> error is \<open>None\<close>. Every reading of the clock, of the random
  source and of the network is an explicit argument of the function that reads it. The
  mutexes are left out: each method body runs under its lock in the source and is one
  step here. The \<^verbatim>\<open>log.Printf\<close> lines are left out; \<^verbatim>\<open>log.Fatalf\<close>, which ends the process,
  is a result.
\<close>

subsection \<open>Data model\<close>

type_synonym time = int
type_synonym duration = int
type_synonym byte = "8 word"

text \<open>
  A Go \<^verbatim>\<open>error\<close> built by \<^verbatim>\<open>fmt.Errorf\<close>: the format string and its arguments
  (\<^verbatim>\<open>%w\<close> and \<^verbatim>\<open>%v\<close> wrap another error). Errors of the libraries have the same shape.
\<close>

datatype fmt_arg = ArgString string | ArgInt int | ArgError error
  and error = Errorf string "fmt_arg list"

definition Second :: duration where
  "Second = 1000000000"

definition Minute :: duration where
  "Minute = 60 * Second"

definition Hour :: duration where
  "Hour = 60 * Minute"

text \<open>The fields of \<^verbatim>\<open>oauth2.Token\<close> that the service reads and writes.\<close>

record oauth2_Token =
  AccessToken :: string
  RefreshToken :: string
  Expiry :: time

record TokenInfo =
  UserID :: string
  PhoneNumber :: string
  CreatedAt :: time
  ExpiresAt :: time
  IsYandexUser :: bool
  YandexToken :: "oauth2_Token option"

subsection \<open>The in-memory token storage\<close>

record InMemoryTokenStorage =
  tokens :: "(string, TokenInfo) fmap"
  maxSize :: int

definition NewInMemoryTokenStorage :: InMemoryTokenStorage where
  "NewInMemoryTokenStorage = \<lparr>tokens = fmempty, maxSize = 10000\<rparr>"

text \<open>\<^verbatim>\<open>len(s.tokens)\<close>\<close>

definition len_tokens :: "InMemoryTokenStorage \<Rightarrow> int" where
  "len_tokens s = int (fcard (fmdom (tokens s)))"

definition InMemoryTokenStorage_StoreRefreshToken ::
  "string \<Rightarrow> TokenInfo \<Rightarrow> InMemoryTokenStorage \<Rightarrow> error option \<times> InMemoryTokenStorage" where
  "InMemoryTokenStorage_StoreRefreshToken token ti s =
     (if len_tokens s \<ge> maxSize s then (Some (Errorf ''token storage is at capacity'' []), s)
      else if UserID ti = [] \<or> PhoneNumber ti = []
        then (Some (Errorf ''invalid token info: missing required fields'' []), s)
      else (None, s\<lparr>tokens := fmupd token ti (tokens s)\<rparr>))"

definition InMemoryTokenStorage_GetTokenInfo ::
  "string \<Rightarrow> InMemoryTokenStorage \<Rightarrow> (error + TokenInfo) \<times> InMemoryTokenStorage" where
  "InMemoryTokenStorage_GetTokenInfo token s =
     (case fmlookup (tokens s) token of
        Some ti \<Rightarrow> (Inr ti, s)
      | None \<Rightarrow> (Inl (Errorf ''token not found'' []), s))"

definition InMemoryTokenStorage_DeleteToken ::
  "string \<Rightarrow> InMemoryTokenStorage \<Rightarrow> error option \<times> InMemoryTokenStorage" where
  "InMemoryTokenStorage_DeleteToken token s = (None, s\<lparr>tokens := fmdrop token (tokens s)\<rparr>)"

text \<open>
  One firing of the hourly ticker in \<^verbatim>\<open>cleanupExpiredTokens\<close>: every record with
  \<^verbatim>\<open>now.After(info.ExpiresAt)\<close> is deleted. The goroutine is the sequence of its firings
  until \<^verbatim>\<open>stopCleanup\<close> is closed.
\<close>

definition expired_at :: "time \<Rightarrow> (string, TokenInfo) fmap \<Rightarrow> string \<Rightarrow> bool" where
  "expired_at now m token =
     (case fmlookup m token of Some ti \<Rightarrow> now > ExpiresAt ti | None \<Rightarrow> False)"

definition cleanup_tick :: "time \<Rightarrow> InMemoryTokenStorage \<Rightarrow> InMemoryTokenStorage" where
  "cleanup_tick now s = s\<lparr>tokens := fmfilter (\<lambda>token. \<not> expired_at now (tokens s) token) (tokens s)\<rparr>"

fun cleanupExpiredTokens :: "time list \<Rightarrow> InMemoryTokenStorage \<Rightarrow> InMemoryTokenStorage" where
  "cleanupExpiredTokens [] s = s"
| "cleanupExpiredTokens (now # ticks) s = cleanupExpiredTokens ticks (cleanup_tick now s)"

subsection \<open>The rate limiter\<close>

record RateLimiter =
  requests :: "(string, time list) fmap"
  window :: duration
  limit :: int

definition NewRateLimiter :: "duration \<Rightarrow> int \<Rightarrow> RateLimiter" where
  "NewRateLimiter w l = \<lparr>requests = fmempty, window = w, limit = l\<rparr>"

text \<open>\<^verbatim>\<open>rl.requests[key]\<close>: a missing key reads as the nil slice.\<close>

definition requests_at :: "RateLimiter \<Rightarrow> string \<Rightarrow> time list" where
  "requests_at rl key = (case fmlookup (requests rl) key of Some ts \<Rightarrow> ts | None \<Rightarrow> [])"

definition RateLimiter_Allow :: "time \<Rightarrow> string \<Rightarrow> RateLimiter \<Rightarrow> bool \<times> RateLimiter" where
  "RateLimiter_Allow now key rl =
     (let windowStart = now + (- window rl);
          validRequests = filter (\<lambda>t. t > windowStart) (requests_at rl key);
          rl1 = rl\<lparr>requests := fmupd key validRequests (requests rl)\<rparr>
      in if int (length validRequests) \<ge> limit rl then (False, rl1)
         else (True, rl1\<lparr>requests := fmupd key (validRequests @ [now]) (requests rl1)\<rparr>))"

subsection \<open>The storage interface\<close>

text \<open>
  The Go interface \<^verbatim>\<open>TokenStorage\<close>: the method table of a storage whose state has type
  \<open>'s\<close>. Each method takes the state and returns the new one with its result.
\<close>

record 's TokenStorage =
  StoreRefreshToken :: "string \<Rightarrow> TokenInfo \<Rightarrow> 's \<Rightarrow> error option \<times> 's"
  GetTokenInfo :: "string \<Rightarrow> 's \<Rightarrow> (error + TokenInfo) \<times> 's"
  DeleteToken :: "string \<Rightarrow> 's \<Rightarrow> error option \<times> 's"

definition InMemoryTokenStorage_impl :: "InMemoryTokenStorage TokenStorage" where
  "InMemoryTokenStorage_impl =
     \<lparr>StoreRefreshToken = InMemoryTokenStorage_StoreRefreshToken,
      GetTokenInfo = InMemoryTokenStorage_GetTokenInfo,
      DeleteToken = InMemoryTokenStorage_DeleteToken\<rparr>"

text \<open>
  A storage that writes down every call made on it, in order, and forwards the call to
  the storage it wraps. It is how the order of the calls a caller issues is observed.
\<close>

datatype storage_call = CallStore string TokenInfo | CallGet string | CallDelete string

definition recording :: "'s TokenStorage \<Rightarrow> ('s \<times> storage_call list) TokenStorage" where
  "recording ops =
     \<lparr>StoreRefreshToken = (\<lambda>token ti (s, calls).
        case StoreRefreshToken ops token ti s of
          (r, s') \<Rightarrow> (r, (s', calls @ [CallStore token ti]))),
      GetTokenInfo = (\<lambda>token (s, calls).
        case GetTokenInfo ops token s of
          (r, s') \<Rightarrow> (r, (s', calls @ [CallGet token]))),
      DeleteToken = (\<lambda>token (s, calls).
        case DeleteToken ops token s of
          (r, s') \<Rightarrow> (r, (s', calls @ [CallDelete token])))\<rparr>"

definition is_store :: "storage_call \<Rightarrow> bool" where
  "is_store c = (case c of CallStore token ti \<Rightarrow> True | CallGet token \<Rightarrow> False | CallDelete token \<Rightarrow> False)"

subsection \<open>The server and its rotation worker\<close>

record tokenUpdateRequest =
  oldToken :: string
  newToken :: string
  info :: TokenInfo

record 's AuthServer =
  tokenStorage :: 's
  tokenUpdateChan :: "tokenUpdateRequest list"
  rateLimiter :: RateLimiter

text \<open>\<^verbatim>\<open>NewAuthServer\<close>, once the storage has been created.\<close>

definition NewAuthServer :: "'s \<Rightarrow> 's AuthServer" where
  "NewAuthServer storage =
     \<lparr>tokenStorage = storage, tokenUpdateChan = [], rateLimiter = NewRateLimiter (1 * Minute) 60\<rparr>"

text \<open>
  The body of the loop of \<^verbatim>\<open>tokenUpdateWorker\<close> for one request taken from the channel;
  \<^verbatim>\<open>continue\<close> after a failed store ends the body. Both errors are only logged.
\<close>

definition process_update :: "'s TokenStorage \<Rightarrow> tokenUpdateRequest \<Rightarrow> 's \<Rightarrow> 's" where
  "process_update ops update st =
     (case StoreRefreshToken ops (newToken update) (info update) st of
        (Some err, st1) \<Rightarrow> st1
      | (None, st1) \<Rightarrow>
          (case DeleteToken ops (oldToken update) st1 of
             (Some err, st2) \<Rightarrow> st2
           | (None, st2) \<Rightarrow> st2))"

text \<open>
  \<^verbatim>\<open>for update := range s.tokenUpdateChan\<close>: the requests in the order they were sent, until
  the channel is closed.
\<close>

fun tokenUpdateWorker :: "'s TokenStorage \<Rightarrow> tokenUpdateRequest list \<Rightarrow> 's \<Rightarrow> 's" where
  "tokenUpdateWorker ops [] st = st"
| "tokenUpdateWorker ops (update # rest) st = tokenUpdateWorker ops rest (process_update ops update st)"

text \<open>The worker takes every request that is in the channel.\<close>

definition drain :: "'s TokenStorage \<Rightarrow> 's AuthServer \<Rightarrow> 's AuthServer" where
  "drain ops s =
     s\<lparr>tokenStorage := tokenUpdateWorker ops (tokenUpdateChan s) (tokenStorage s),
       tokenUpdateChan := []\<rparr>"

subsection \<open>Token generation\<close>

text \<open>
  The random source: either the error of the read, or the bytes it yields. A read of
  \<open>n\<close> bytes fills a buffer of length \<open>n\<close>.
\<close>

type_synonym rand_Reader = "error + (nat \<Rightarrow> byte)"

definition rand_Read :: "rand_Reader \<Rightarrow> nat \<Rightarrow> error + byte list" where
  "rand_Read r n = (case r of Inl err \<Rightarrow> Inl err | Inr f \<Rightarrow> Inr (map f [0..<n]))"

text \<open>
  \<^verbatim>\<open>base64.URLEncoding.EncodeToString\<close> (RFC 4648, section 5, with padding): three bytes
  make one 24-bit value and four characters of the alphabet.
\<close>

definition encodeURL :: string where
  "encodeURL = ''ABCDEFGHIJKLMNOPQRSTUVWXYZabcdefghijklmnopqrstuvwxyz0123456789-_''"

fun EncodeToString :: "byte list \<Rightarrow> string" where
  "EncodeToString [] = []"
| "EncodeToString [a] =
     (let val = unat a * 65536
      in [encodeURL ! (val div 262144 mod 64), encodeURL ! (val div 4096 mod 64),
          CHR ''='', CHR ''=''])"
| "EncodeToString [a, b] =
     (let val = unat a * 65536 + unat b * 256
      in [encodeURL ! (val div 262144 mod 64), encodeURL ! (val div 4096 mod 64),
          encodeURL ! (val div 64 mod 64), CHR ''=''])"
| "EncodeToString (a # b # c # rest) =
     (let val = unat a * 65536 + unat b * 256 + unat c
      in [encodeURL ! (val div 262144 mod 64), encodeURL ! (val div 4096 mod 64),
          encodeURL ! (val div 64 mod 64), encodeURL ! (val mod 64)] @ EncodeToString rest)"

text \<open>
  \<^verbatim>\<open>log.Fatalf\<close> ends the process: the result is \<open>Inl\<close> of the message. Both generators
  read 32 bytes; \<^verbatim>\<open>generate_auth_token\<close> takes the phone number and the password hash and
  does not use them.
\<close>

definition generate_auth_token :: "rand_Reader \<Rightarrow> string \<Rightarrow> string \<Rightarrow> error + string" where
  "generate_auth_token rnd PhoneNumber' PasswordHash =
     (case rand_Read rnd 32 of
        Inl err \<Rightarrow> Inl (Errorf ''failed to generate auth token: %v'' [ArgError err])
      | Inr b \<Rightarrow> Inr (EncodeToString b))"

definition generate_refresh_token :: "rand_Reader \<Rightarrow> error + string" where
  "generate_refresh_token rnd =
     (case rand_Read rnd 32 of
        Inl err \<Rightarrow> Inl (Errorf ''failed to generate refresh token: %v'' [ArgError err])
      | Inr b \<Rightarrow> Inr (EncodeToString b))"

subsection \<open>The upstream refresh client\<close>

text \<open>
  The body of a 200 response as \<^verbatim>\<open>json.Decode\<close> leaves it in \<^verbatim>\<open>tokenResponse\<close>: a
  field the body omits keeps its zero value.
\<close>

record tokenResponse =
  access_token :: string
  refresh_token :: string
  expires_in :: int

text \<open>
  What the network does with the one request of \<^verbatim>\<open>refreshYandexToken\<close>: building the
  request fails, sending it fails, or a response arrives with its status code, its
  status line and the result of decoding its body.
\<close>

datatype upstream_exchange =
  NewRequestFailed error
| DoFailed error
| Response int string "error + tokenResponse"

definition StatusOK :: int where
  "StatusOK = 200"

text \<open>
  \<^verbatim>\<open>time.Duration(tokenResponse.ExpiresIn) * time.Second\<close> is a product of 64-bit signed
  integers and wraps around.
\<close>

definition seconds :: "int \<Rightarrow> duration" where
  "seconds n = sint (word_of_int n * word_of_int Second :: 64 word)"

definition refreshYandexToken :: "upstream_exchange \<Rightarrow> time \<Rightarrow> oauth2_Token \<Rightarrow> error + oauth2_Token" where
  "refreshYandexToken net now yandexToken =
     (if RefreshToken yandexToken = []
        then Inl (Errorf ''no refresh token provided in yandexToken'' [])
      else case net of
        NewRequestFailed err \<Rightarrow> Inl (Errorf ''failed to create refresh request: %w'' [ArgError err])
      | DoFailed err \<Rightarrow> Inl (Errorf ''failed to perform refresh request: %w'' [ArgError err])
      | Response StatusCode Status body \<Rightarrow>
          if StatusCode \<noteq> StatusOK
            then Inl (Errorf ''yandex token refresh failed with status code %d: %s''
                        [ArgInt StatusCode, ArgString Status])
          else
            (case body of
               Inl err \<Rightarrow> Inl (Errorf ''failed to decode Yandex token response: %w'' [ArgError err])
             | Inr resp \<Rightarrow>
                 let newRefreshToken =
                       (if refresh_token resp = [] then RefreshToken yandexToken
                        else refresh_token resp)
                 in Inr \<lparr>AccessToken = access_token resp,
                         RefreshToken = newRefreshToken,
                         Expiry = now + seconds (expires_in resp)\<rparr>))"

subsection \<open>The request handlers\<close>

datatype RefreshTokenResponseData =
  RefreshTokenResponseData (AuthToken: string) (resp_RefreshToken: string) (resp_ExpiresAt: time)

datatype RefreshTokenResponse =
  RefreshTokenResponse_Error string
| RefreshTokenResponse_Token RefreshTokenResponseData

datatype SignUpResponse =
  SignUpResponse_Error string
| SignUpResponse_Token RefreshTokenResponseData

datatype SignInResponse =
  SignInResponse_Error string
| SignInResponse_Token RefreshTokenResponseData

text \<open>
  What a handler does: it returns a response, it returns a Go error, or the process is
  ended by \<^verbatim>\<open>log.Fatalf\<close>.
\<close>

datatype 'r rpc = Reply 'r | RpcError error | Fatal error

text \<open>
  What a handler reads from outside during one call: the clock at each \<^verbatim>\<open>time.Now()\<close>,
  the random source at each generator, the network, and which case each \<^verbatim>\<open>select\<close> with
  \<^verbatim>\<open>ctx.Done()\<close> takes.
\<close>

record env =
  now_Allow :: time
  now_check :: time
  now_expiry :: time
  now_CreatedAt :: time
  now_reply :: time
  rand_auth :: rand_Reader
  rand_refresh :: rand_Reader
  yandex_http :: upstream_exchange
  refresh_Done :: bool
  send_Done :: bool
  ctx_Err :: error

text \<open>
  Lines 277 to 339 of \<^verbatim>\<open>RefreshToken\<close>: the new auth token, refresh token, expiry and
  Yandex token, or the early return. \<open>now_expiry\<close> is the clock inside
  \<^verbatim>\<open>refreshYandexToken\<close> for a Yandex user and at line 338 otherwise; \<open>refresh_Done\<close> says
  that the \<^verbatim>\<open>select\<close> on the two result channels takes \<^verbatim>\<open>ctx.Done()\<close>.
\<close>

definition new_tokens ::
  "env \<Rightarrow> TokenInfo \<Rightarrow> RefreshTokenResponse rpc + (string \<times> string \<times> time \<times> oauth2_Token option)" where
  "new_tokens e tokenInfo =
     (if IsYandexUser tokenInfo then
        (case YandexToken tokenInfo of
           None \<Rightarrow> Inl (Reply (RefreshTokenResponse_Error ''invalid Yandex token state''))
         | Some yandexToken \<Rightarrow>
             if refresh_Done e then Inl (RpcError (ctx_Err e))
             else
               (case refreshYandexToken (yandex_http e) (now_expiry e) yandexToken of
                  Inl err \<Rightarrow> Inl (Reply (RefreshTokenResponse_Error ''failed to refresh Yandex token''))
                | Inr newYandexToken \<Rightarrow>
                    Inr (AccessToken newYandexToken, RefreshToken newYandexToken,
                         Expiry newYandexToken, Some newYandexToken)))
      else
        (case generate_auth_token (rand_auth e) (PhoneNumber tokenInfo) [] of
           Inl fatal \<Rightarrow> Inl (Fatal fatal)
         | Inr newAuthToken \<Rightarrow>
             (case generate_refresh_token (rand_refresh e) of
                Inl fatal \<Rightarrow> Inl (Fatal fatal)
              | Inr newRefreshToken \<Rightarrow>
                  Inr (newAuthToken, newRefreshToken, now_expiry e + 24 * Hour, None))))"

text \<open>
  The channel holds 100 requests. No worker step happens inside a handler, so a send on
  a full channel waits until \<^verbatim>\<open>ctx.Done()\<close>, which the 30 second timeout brings.
\<close>

definition chan_cap :: nat where
  "chan_cap = 100"

definition AuthServer_RefreshToken ::
  "'s TokenStorage \<Rightarrow> env \<Rightarrow> string \<Rightarrow> 's AuthServer \<Rightarrow> RefreshTokenResponse rpc \<times> 's AuthServer" where
  "AuthServer_RefreshToken ops e req s =
     (case RateLimiter_Allow (now_Allow e) req (rateLimiter s) of
        (allowed, rl) \<Rightarrow>
          let s1 = s\<lparr>rateLimiter := rl\<rparr> in
          if \<not> allowed then (Reply (RefreshTokenResponse_Error ''rate limit exceeded''), s1)
          else if req = [] then (Reply (RefreshTokenResponse_Error ''refresh token is required''), s1)
          else
            (case GetTokenInfo ops req (tokenStorage s1) of
               (Inl err, st) \<Rightarrow>
                 (Reply (RefreshTokenResponse_Error ''invalid refresh token''),
                  s1\<lparr>tokenStorage := st\<rparr>)
             | (Inr tokenInfo, st) \<Rightarrow>
                 if now_check e > ExpiresAt tokenInfo then
                   (Reply (RefreshTokenResponse_Error ''refresh token expired''),
                    s1\<lparr>tokenStorage := snd (DeleteToken ops req st)\<rparr>)
                 else
                   (case new_tokens e tokenInfo of
                      Inl early \<Rightarrow> (early, s1\<lparr>tokenStorage := st\<rparr>)
                    | Inr (newAuthToken, newRefreshToken, expiry, newYandexToken) \<Rightarrow>
                        let newTokenInfo =
                              \<lparr>UserID = UserID tokenInfo,
                               PhoneNumber = PhoneNumber tokenInfo,
                               CreatedAt = now_CreatedAt e,
                               ExpiresAt = expiry,
                               IsYandexUser = IsYandexUser tokenInfo,
                               YandexToken = newYandexToken\<rparr>;
                            s2 = s1\<lparr>tokenStorage := st\<rparr>
                        in if send_Done e \<or> length (tokenUpdateChan s2) \<ge> chan_cap
                             then (RpcError (ctx_Err e), s2)
                           else
                             (Reply (RefreshTokenResponse_Token
                                       (RefreshTokenResponseData newAuthToken newRefreshToken expiry)),
                              s2\<lparr>tokenUpdateChan := tokenUpdateChan s2 @
                                    [\<lparr>oldToken = req, newToken = newRefreshToken,
                                      info = newTokenInfo\<rparr>]\<rparr>))))"

definition AuthServer_SignUp ::
  "'s TokenStorage \<Rightarrow> env \<Rightarrow> string \<Rightarrow> string \<Rightarrow> 's AuthServer \<Rightarrow> SignUpResponse rpc \<times> 's AuthServer" where
  "AuthServer_SignUp ops e reqPhoneNumber reqPasswordHash s =
     (case generate_auth_token (rand_auth e) reqPhoneNumber reqPasswordHash of
        Inl fatal \<Rightarrow> (Fatal fatal, s)
      | Inr authToken \<Rightarrow>
          (case generate_refresh_token (rand_refresh e) of
             Inl fatal \<Rightarrow> (Fatal fatal, s)
           | Inr refreshToken \<Rightarrow>
               let tokenInfo =
                     \<lparr>UserID = reqPhoneNumber,
                      PhoneNumber = reqPhoneNumber,
                      CreatedAt = now_CreatedAt e,
                      ExpiresAt = now_expiry e + 30 * 24 * Hour,
                      IsYandexUser = False,
                      YandexToken = None\<rparr>
               in (case StoreRefreshToken ops refreshToken tokenInfo (tokenStorage s) of
                     (Some err, st) \<Rightarrow>
                       (Reply (SignUpResponse_Error ''failed to store refresh token''),
                        s\<lparr>tokenStorage := st\<rparr>)
                   | (None, st) \<Rightarrow>
                       (Reply (SignUpResponse_Token
                                 (RefreshTokenResponseData authToken refreshToken
                                    (now_reply e + 24 * Hour))),
                        s\<lparr>tokenStorage := st\<rparr>))))"

definition AuthServer_SignIn ::
  "'s TokenStorage \<Rightarrow> env \<Rightarrow> string \<Rightarrow> string \<Rightarrow> 's AuthServer \<Rightarrow> SignInResponse rpc \<times> 's AuthServer" where
  "AuthServer_SignIn ops e reqPhoneNumber reqPasswordHash s =
     (case generate_auth_token (rand_auth e) reqPhoneNumber reqPasswordHash of
        Inl fatal \<Rightarrow> (Fatal fatal, s)
      | Inr authToken \<Rightarrow>
          (case generate_refresh_token (rand_refresh e) of
             Inl fatal \<Rightarrow> (Fatal fatal, s)
           | Inr refreshToken \<Rightarrow>
               let tokenInfo =
                     \<lparr>UserID = reqPhoneNumber,
                      PhoneNumber = reqPhoneNumber,
                      CreatedAt = now_CreatedAt e,
                      ExpiresAt = now_expiry e + 30 * 24 * Hour,
                      IsYandexUser = False,
                      YandexToken = None\<rparr>
               in (case StoreRefreshToken ops refreshToken tokenInfo (tokenStorage s) of
                     (Some err, st) \<Rightarrow>
                       (Reply (SignInResponse_Error ''failed to store refresh token''),
                        s\<lparr>tokenStorage := st\<rparr>)
                   | (None, st) \<Rightarrow>
                       (Reply (SignInResponse_Token
                                 (RefreshTokenResponseData authToken refreshToken
                                    (now_reply e + 24 * Hour))),
                        s\<lparr>tokenStorage := st\<rparr>))))"

subsection \<open>Encryption at rest\<close>

text \<open>
  The \<^verbatim>\<open>cipher.AEAD\<close> held by \<^verbatim>\<open>RedisTokenStorage\<close>: its nonce size and, for a nonce, a
  plaintext or ciphertext and the additional data, what \<^verbatim>\<open>Seal\<close> appends and what \<^verbatim>\<open>Open\<close>
  returns. \<^verbatim>\<open>Seal(dst, ...)\<close> and \<^verbatim>\<open>Open(dst, ...)\<close> append their output to \<open>dst\<close>.
\<close>

record AEAD =
  NonceSize :: nat
  seal :: "byte list \<Rightarrow> byte list \<Rightarrow> byte list \<Rightarrow> byte list"
  unseal :: "byte list \<Rightarrow> byte list \<Rightarrow> byte list \<Rightarrow> error + byte list"

definition Seal :: "AEAD \<Rightarrow> byte list \<Rightarrow> byte list \<Rightarrow> byte list \<Rightarrow> byte list \<Rightarrow> byte list" where
  "Seal gcm dst nonce plaintext additionalData = dst @ seal gcm nonce plaintext additionalData"

definition Open :: "AEAD \<Rightarrow> byte list \<Rightarrow> byte list \<Rightarrow> byte list \<Rightarrow> byte list \<Rightarrow> error + byte list" where
  "Open gcm dst nonce ciphertext additionalData =
     (case unseal gcm nonce ciphertext additionalData of
        Inl err \<Rightarrow> Inl err
      | Inr plaintext \<Rightarrow> Inr (dst @ plaintext))"

definition encrypt :: "AEAD \<Rightarrow> rand_Reader \<Rightarrow> byte list \<Rightarrow> error + byte list" where
  "encrypt gcm rnd data =
     (case rand_Read rnd (NonceSize gcm) of
        Inl err \<Rightarrow> Inl err
      | Inr nonce \<Rightarrow> Inr (Seal gcm nonce nonce data []))"

definition decrypt :: "AEAD \<Rightarrow> byte list \<Rightarrow> error + byte list" where
  "decrypt gcm data =
     (if length data < NonceSize gcm then Inl (Errorf ''ciphertext too short'' [])
      else
        let nonce = take (NonceSize gcm) data;
            ciphertext = drop (NonceSize gcm) data
        in Open gcm [] nonce ciphertext [])"

subsection \<open>Histories of the in-memory storage\<close>

text \<open>
  The calls that reach one \<^verbatim>\<open>InMemoryTokenStorage\<close>, in the order its mutex serialises
  them: the three methods and the firings of the cleanup ticker.
\<close>

datatype storage_op = OpStore string TokenInfo | OpGet string | OpDelete string | OpTick time

fun apply_op :: "storage_op \<Rightarrow> InMemoryTokenStorage \<Rightarrow> InMemoryTokenStorage" where
  "apply_op (OpStore token ti) s = snd (InMemoryTokenStorage_StoreRefreshToken token ti s)"
| "apply_op (OpGet token) s = snd (InMemoryTokenStorage_GetTokenInfo token s)"
| "apply_op (OpDelete token) s = snd (InMemoryTokenStorage_DeleteToken token s)"
| "apply_op (OpTick now) s = cleanup_tick now s"

fun run_ops :: "storage_op list \<Rightarrow> InMemoryTokenStorage \<Rightarrow> InMemoryTokenStorage" where
  "run_ops [] s = s"
| "run_ops (x # xs) s = run_ops xs (apply_op x s)"

subsection \<open>The contract of the cipher\<close>

text \<open>
  What \<^verbatim>\<open>crypto/cipher\<close> promises of an AEAD: with a nonce of the right size, \<^verbatim>\<open>Open\<close> of
  what \<^verbatim>\<open>Seal\<close> produced, under the same nonce and additional data, is the plaintext.
\<close>

definition aead_correct :: "AEAD \<Rightarrow> bool" where
  "aead_correct gcm \<longleftrightarrow>
     (\<forall>nonce plaintext ad. length nonce = NonceSize gcm \<longrightarrow>
        unseal gcm nonce (seal gcm nonce plaintext ad) ad = Inr plaintext)"

text \<open>
  A small AEAD that meets the contract, to run the storage code on: it shifts every
  byte by one and appends the reversed nonce as the tag.
\<close>

definition toy_aead :: AEAD where
  "toy_aead =
     \<lparr>NonceSize = 12,
      seal = (\<lambda>nonce plaintext ad. map (\<lambda>b. b + 1) plaintext @ rev nonce),
      unseal = (\<lambda>nonce ciphertext ad.
        if length nonce \<le> length ciphertext
           \<and> drop (length ciphertext - length nonce) ciphertext = rev nonce
        then Inr (map (\<lambda>b. b - 1) (take (length ciphertext - length nonce) ciphertext))
        else Inl (Errorf ''cipher: message authentication failed'' []))\<rparr>"

subsection \<open>Sample values\<close>

definition sample_info :: TokenInfo where
  "sample_info =
     \<lparr>UserID = ''+70000000000'', PhoneNumber = ''+70000000000'', CreatedAt = 0,
      ExpiresAt = 10, IsYandexUser = False, YandexToken = None\<rparr>"

definition full_storage :: InMemoryTokenStorage where
  "full_storage = \<lparr>tokens = fmupd ''a'' sample_info fmempty, maxSize = 1\<rparr>"

definition limited_storage :: InMemoryTokenStorage where
  "limited_storage = \<lparr>tokens = fmupd ''a'' sample_info fmempty, maxSize = 2\<rparr>"

definition sample_update :: tokenUpdateRequest where
  "sample_update = \<lparr>oldToken = ''a'', newToken = ''b'', info = sample_info\<rparr>"

definition sample_env :: env where
  "sample_env =
     \<lparr>now_Allow = 100, now_check = 101, now_expiry = 102, now_CreatedAt = 103, now_reply = 104,
      rand_auth = Inr (\<lambda>i. word_of_nat i),
      rand_refresh = Inr (\<lambda>i. word_of_nat (255 - i)),
      yandex_http = Response 200 ''200 OK''
        (Inr \<lparr>access_token = ''acc2'', refresh_token = [], expires_in = 3600\<rparr>),
      refresh_Done = False,
      send_Done = False,
      ctx_Err = Errorf ''context deadline exceeded'' []\<rparr>"

text \<open>
  The limiter of \<^verbatim>\<open>NewAuthServer\<close> after sixty admitted calls on the key \<open>''a''\<close>, at the
  times 1 to 60.
\<close>

definition busy_limiter :: RateLimiter where
  "busy_limiter = \<lparr>requests = fmupd ''a'' (map int [1..<61]) fmempty, window = 1 * Minute, limit = 60\<rparr>"

text \<open>The same calls early enough for \<open>sample_info\<close> to be live.\<close>

definition early_env :: env where
  "early_env =
     sample_env\<lparr>now_Allow := 1, now_check := 2, now_expiry := 3, now_CreatedAt := 4, now_reply := 5\<rparr>"

text \<open>
  A session of a Yandex user as a first refresh leaves it: stored under the refresh token
  of its Yandex credential.
\<close>

definition yandex_info :: TokenInfo where
  "yandex_info =
     \<lparr>UserID = ''1130000000000001'', PhoneNumber = ''user@yandex.ru'', CreatedAt = 0,
      ExpiresAt = 1000, IsYandexUser = True,
      YandexToken = Some \<lparr>AccessToken = ''acc1'', RefreshToken = ''ref1'', Expiry = 1000\<rparr>\<rparr>"

text \<open>
  A session of the same user as \<^verbatim>\<open>OAuth2Callback\<close> stores it: thirty days long, under a
  generated key, with the credential the upstream gave.
\<close>

definition login_info :: TokenInfo where
  "login_info =
     \<lparr>UserID = ''1130000000000001'', PhoneNumber = ''user@yandex.ru'', CreatedAt = 50,
      ExpiresAt = 50 + 30 * 24 * Hour, IsYandexUser = True,
      YandexToken = Some \<lparr>AccessToken = ''acc1'', RefreshToken = ''ref1'', Expiry = 1000\<rparr>\<rparr>"

definition login_key :: string where
  "login_key = ''AAECAwQFBgcICQoLDA0ODxAREhMUFRYXGBkaGxwdHh8=''"

text \<open>
  Two sessions of one Yandex user whose credential has the refresh token \<open>''ref1''\<close>: one
  already refreshed once, one new.
\<close>

definition two_logins :: InMemoryTokenStorage where
  "two_logins =
     \<lparr>tokens = fmupd login_key login_info (fmupd ''ref1'' yandex_info fmempty), maxSize = 10000\<rparr>"

definition later_env :: env where
  "later_env =
     sample_env\<lparr>now_Allow := 200, now_check := 201, now_expiry := 202, now_CreatedAt := 203,
       now_reply := 204\<rparr>"

text \<open>The first session is refreshed and the worker runs; then the second one.\<close>

definition first_rotated :: "InMemoryTokenStorage AuthServer" where
  "first_rotated =
     drain InMemoryTokenStorage_impl
       (snd (AuthServer_RefreshToken InMemoryTokenStorage_impl sample_env ''ref1''
               (NewAuthServer two_logins)))"

definition second_rotated :: "InMemoryTokenStorage AuthServer" where
  "second_rotated =
     drain InMemoryTokenStorage_impl
       (snd (AuthServer_RefreshToken InMemoryTokenStorage_impl later_env login_key first_rotated))"

definition rotated_info :: "time \<Rightarrow> time \<Rightarrow> TokenInfo" where
  "rotated_info created expiry =
     \<lparr>UserID = ''1130000000000001'', PhoneNumber = ''user@yandex.ru'', CreatedAt = created,
      ExpiresAt = expiry, IsYandexUser = True,
      YandexToken = Some \<lparr>AccessToken = ''acc2'', RefreshToken = ''ref1'', Expiry = expiry\<rparr>\<rparr>"

section \<open>Verification\<close>

subsection \<open>Token encoding\<close>

text \<open>
  The encoding of the random bytes is injective: two reads of the random source that
  give the same token gave the same bytes. A value below \<open>2^24\<close> is its four base-64 digits.
\<close>

lemma digits64:
  fixes n :: nat
  assumes "n < 16777216"
  shows "n = (n div 262144 mod 64) * 262144 + (n div 4096 mod 64) * 4096
           + (n div 64 mod 64) * 64 + n mod 64"
proof -
  have d1: "n = (n div 64) * 64 + n mod 64"
    by simp
  have "n div 64 div 64 = n div (64 * 64)"
    by (rule div_mult2_eq [symmetric])
  then have e2: "n div 64 div 64 = n div 4096"
    by simp
  have d2: "n div 64 = (n div 64 div 64) * 64 + n div 64 mod 64"
    by simp
  have "n div 4096 div 64 = n div (4096 * 64)"
    by (rule div_mult2_eq [symmetric])
  then have e3: "n div 4096 div 64 = n div 262144"
    by simp
  have d3: "n div 4096 = (n div 4096 div 64) * 64 + n div 4096 mod 64"
    by simp
  have "n div 262144 < 64"
    using assms by (simp add: less_mult_imp_div_less)
  then have d4: "n div 262144 mod 64 = n div 262144"
    by simp
  define q1 where "q1 = n div 64"
  define q2 where "q2 = n div 4096"
  define q3 where "q3 = n div 262144"
  define r0 where "r0 = n mod 64"
  define r1 where "r1 = n div 64 mod 64"
  define r2 where "r2 = n div 4096 mod 64"
  have "n = q1 * 64 + r0" "q1 = q2 * 64 + r1" "q2 = q3 * 64 + r2"
    using d1 d2 d3 unfolding e2 e3 by (simp_all only: q1_def q2_def q3_def r0_def r1_def r2_def)
  then have "n = q3 * 262144 + r2 * 4096 + r1 * 64 + r0"
    by simp
  then show ?thesis
    by (simp only: d4 q3_def r0_def r1_def r2_def)
qed


lemma digits64_inj:
  fixes n m :: nat
  assumes "n < 16777216" and "m < 16777216"
    and "n div 262144 mod 64 = m div 262144 mod 64"
    and "n div 4096 mod 64 = m div 4096 mod 64"
    and "n div 64 mod 64 = m div 64 mod 64"
    and "n mod 64 = m mod 64"
  shows "n = m"
proof -
  have "n = (n div 262144 mod 64) * 262144 + (n div 4096 mod 64) * 4096
           + (n div 64 mod 64) * 64 + n mod 64"
    by (rule digits64 [OF assms(1)])
  also have "\<dots> = (m div 262144 mod 64) * 262144 + (m div 4096 mod 64) * 4096
           + (m div 64 mod 64) * 64 + m mod 64"
    by (simp only: assms(3-))
  also have "\<dots> = m"
    by (rule digits64 [OF assms(2), symmetric])
  finally show ?thesis .
qed

lemma base_unique:
  fixes q r q' r' m :: nat
  assumes "q * m + r = q' * m + r'" and "r < m" and "r' < m"
  shows "q = q' \<and> r = r'"
proof -
  have "(q * m + r) div m = q" "(q' * m + r') div m = q'"
    using assms(2,3) by simp_all
  moreover have "(q * m + r) mod m = r" "(q' * m + r') mod m = r'"
    using assms(2,3) by simp_all
  ultimately show ?thesis
    using assms(1) by metis
qed

lemma bytes3_inj:
  fixes a b c a' b' c' :: nat
  assumes "a * 65536 + b * 256 + c = a' * 65536 + b' * 256 + c'"
    and "b < 256" "c < 256" "b' < 256" "c' < 256"
  shows "a = a' \<and> b = b' \<and> c = c'"
proof -
  have "(a * 256 + b) * 256 + c = (a' * 256 + b') * 256 + c'"
    using assms(1) by simp
  from base_unique [OF this assms(3,5)] have "a * 256 + b = a' * 256 + b'" and "c = c'"
    by simp_all
  from base_unique [OF this(1) assms(2,4)] \<open>c = c'\<close> show ?thesis
    by simp
qed

lemma sextet_zero_1: "(x * 65536) mod 64 = (0::nat)"
proof -
  have "x * 65536 = (x * 1024) * 64" by simp
  then show ?thesis by (simp only: mod_mult_self2_is_0)
qed
lemma sextet_zero_2: "(x * 65536) div 64 mod 64 = (0::nat)"
proof -
  have "x * 65536 = (x * 1024) * 64" by simp
  then have "(x * 65536) div 64 = x * 1024" by (simp only: nonzero_mult_div_cancel_right)
  moreover have "x * 1024 = (x * 16) * 64" by simp
  ultimately show ?thesis by (simp only: mod_mult_self2_is_0)
qed
lemma sextet_zero_3: "(x * 65536 + y * 256) mod 64 = (0::nat)"
proof -
  have "x * 65536 + y * 256 = (x * 1024 + y * 4) * 64" by simp
  then show ?thesis by (simp only: mod_mult_self2_is_0)
qed

lemma distinct_encodeURL: "distinct encodeURL"
  by (simp add: encodeURL_def)

lemma length_encodeURL: "length encodeURL = 64"
  by (simp add: encodeURL_def)

lemma encodeURL_inj:
  "encodeURL ! (i mod 64) = encodeURL ! (j mod 64) \<Longrightarrow> i mod 64 = j mod 64"
  using distinct_encodeURL length_encodeURL by (simp add: nth_eq_iff_index_eq)

lemma encodeURL_not_pad: "encodeURL ! (i mod 64) \<noteq> CHR ''=''"
proof -
  have "CHR ''='' \<notin> set encodeURL"
    by (simp add: encodeURL_def)
  moreover have "encodeURL ! (i mod 64) \<in> set encodeURL"
    by (rule nth_mem) (simp add: length_encodeURL)
  ultimately show ?thesis
    by metis
qed

lemma val_bound:
  fixes a b c :: byte
  shows "unat a * 65536 + unat b * 256 + unat c < 16777216"
proof -
  have "unat a < 256" "unat b < 256" "unat c < 256"
    using unsigned_less [of a] unsigned_less [of b] unsigned_less [of c] by simp_all
  then show ?thesis by linarith
qed


lemma group_inj:
  fixes a b c a' b' c' :: byte
  assumes "encodeURL ! (n div 262144 mod 64) = encodeURL ! (m div 262144 mod 64)"
    and "encodeURL ! (n div 4096 mod 64) = encodeURL ! (m div 4096 mod 64)"
    and "encodeURL ! (n div 64 mod 64) = encodeURL ! (m div 64 mod 64)"
    and "encodeURL ! (n mod 64) = encodeURL ! (m mod 64)"
    and "n = unat a * 65536 + unat b * 256 + unat c"
    and "m = unat a' * 65536 + unat b' * 256 + unat c'"
  shows "a = a' \<and> b = b' \<and> c = c'"
proof -
  have "n < 16777216" "m < 16777216"
    unfolding assms(5,6) by (rule val_bound)+
  moreover have "n div 262144 mod 64 = m div 262144 mod 64"
    using assms(1) by (rule encodeURL_inj)
  moreover have "n div 4096 mod 64 = m div 4096 mod 64"
    using assms(2) by (rule encodeURL_inj)
  moreover have "n div 64 mod 64 = m div 64 mod 64"
    using assms(3) by (rule encodeURL_inj)
  moreover have "n mod 64 = m mod 64"
    using assms(4) by (rule encodeURL_inj)
  ultimately have "n = m"
    by (rule digits64_inj)
  then have "unat a * 65536 + unat b * 256 + unat c = unat a' * 65536 + unat b' * 256 + unat c'"
    by (simp only: assms(5,6))
  moreover have "unat b < 256" "unat c < 256" "unat b' < 256" "unat c' < 256"
    using unsigned_less [of b] unsigned_less [of c] unsigned_less [of b'] unsigned_less [of c']
    by simp_all
  ultimately have "unat a = unat a' \<and> unat b = unat b' \<and> unat c = unat c'"
    by (rule bytes3_inj)
  then show ?thesis
    by (simp add: word_unat_eq_iff)
qed

lemma length_EncodeToString: "length (EncodeToString xs) = 4 * ((length xs + 2) div 3)"
proof (induction xs rule: EncodeToString.induct)
  case (4 a b c rest)
  have "(length (a # b # c # rest) + 2) div 3 = Suc ((length rest + 2) div 3)"
    by simp
  with 4 show ?case by (simp add: Let_def)
qed (simp_all add: Let_def)

lemma EncodeToString_Nil: "EncodeToString ys = [] \<Longrightarrow> ys = []"
  using length_EncodeToString [of ys] by (cases ys) simp_all

lemma one_inj:
  fixes a a' :: byte
  assumes "encodeURL ! ((unat a * 65536) div 262144 mod 64) = encodeURL ! ((unat a' * 65536) div 262144 mod 64)"
    and "encodeURL ! ((unat a * 65536) div 4096 mod 64) = encodeURL ! ((unat a' * 65536) div 4096 mod 64)"
  shows "a = a'"
proof -
  have eq: "unat a * 65536 = unat a * 65536 + unat (0::byte) * 256 + unat (0::byte)"
      "unat a' * 65536 = unat a' * 65536 + unat (0::byte) * 256 + unat (0::byte)"
    by simp_all
  have "encodeURL ! ((unat a * 65536) div 64 mod 64) = encodeURL ! ((unat a' * 65536) div 64 mod 64)"
    "encodeURL ! ((unat a * 65536) mod 64) = encodeURL ! ((unat a' * 65536) mod 64)"
    by (simp_all only: sextet_zero_1 sextet_zero_2)
  from group_inj [OF assms this eq] show ?thesis
    by simp
qed

lemma two_inj:
  fixes a b a' b' :: byte
  assumes "encodeURL ! ((unat a * 65536 + unat b * 256) div 262144 mod 64)
         = encodeURL ! ((unat a' * 65536 + unat b' * 256) div 262144 mod 64)"
    and "encodeURL ! ((unat a * 65536 + unat b * 256) div 4096 mod 64)
         = encodeURL ! ((unat a' * 65536 + unat b' * 256) div 4096 mod 64)"
    and "encodeURL ! ((unat a * 65536 + unat b * 256) div 64 mod 64)
         = encodeURL ! ((unat a' * 65536 + unat b' * 256) div 64 mod 64)"
  shows "a = a' \<and> b = b'"
proof -
  have eq: "unat a * 65536 + unat b * 256 = unat a * 65536 + unat b * 256 + unat (0::byte)"
      "unat a' * 65536 + unat b' * 256 = unat a' * 65536 + unat b' * 256 + unat (0::byte)"
    by simp_all
  have "encodeURL ! ((unat a * 65536 + unat b * 256) mod 64)
      = encodeURL ! ((unat a' * 65536 + unat b' * 256) mod 64)"
    by (simp only: sextet_zero_3)
  from group_inj [OF assms this eq] show ?thesis
    by simp
qed

lemma three_inj:
  fixes a b c a' b' c' :: byte
  assumes "encodeURL ! ((unat a * 65536 + unat b * 256 + unat c) div 262144 mod 64)
         = encodeURL ! ((unat a' * 65536 + unat b' * 256 + unat c') div 262144 mod 64)"
    and "encodeURL ! ((unat a * 65536 + unat b * 256 + unat c) div 4096 mod 64)
         = encodeURL ! ((unat a' * 65536 + unat b' * 256 + unat c') div 4096 mod 64)"
    and "encodeURL ! ((unat a * 65536 + unat b * 256 + unat c) div 64 mod 64)
         = encodeURL ! ((unat a' * 65536 + unat b' * 256 + unat c') div 64 mod 64)"
    and "encodeURL ! ((unat a * 65536 + unat b * 256 + unat c) mod 64)
         = encodeURL ! ((unat a' * 65536 + unat b' * 256 + unat c') mod 64)"
  shows "a = a' \<and> b = b' \<and> c = c'"
  by (rule group_inj [OF assms refl refl])

lemma pad_neq: "CHR ''='' \<noteq> encodeURL ! (i mod 64)"
  using encodeURL_not_pad [of i] by metis

lemma EncodeToString_inj: "EncodeToString xs = EncodeToString ys \<Longrightarrow> xs = ys"
proof (induction xs arbitrary: ys rule: EncodeToString.induct)
  case 1
  then show ?case
    using EncodeToString_Nil [of ys] by simp
next
  case (2 a)
  show ?case
  proof (cases ys rule: EncodeToString.cases)
    case 1
    with "2.prems" show ?thesis
      by (simp only: EncodeToString.simps Let_def) simp
  next
    case (2 a')
    with "2.prems" have "a = a'"
      by (intro one_inj) (simp_all only: EncodeToString.simps Let_def list.inject)
    with 2 show ?thesis by simp
  next
    case (3 a' b')
    with "2.prems" show ?thesis
      by (simp only: EncodeToString.simps Let_def list.inject pad_neq simp_thms)
  next
    case (4 a' b' c' rest')
    with "2.prems" show ?thesis
      by (simp only: EncodeToString.simps Let_def list.inject append_Cons pad_neq simp_thms)
  qed
next
  case (3 a b)
  show ?case
  proof (cases ys rule: EncodeToString.cases)
    case 1
    with "3.prems" show ?thesis
      by (simp only: EncodeToString.simps Let_def) simp
  next
    case (2 a')
    with "3.prems" show ?thesis
      by (simp only: EncodeToString.simps Let_def list.inject encodeURL_not_pad simp_thms)
  next
    case (3 a' b')
    with "3.prems" have "a = a' \<and> b = b'"
      by (intro two_inj) (simp_all only: EncodeToString.simps Let_def list.inject)
    with 3 show ?thesis by simp
  next
    case (4 a' b' c' rest')
    with "3.prems" show ?thesis
      by (simp only: EncodeToString.simps Let_def list.inject append_Cons pad_neq simp_thms)
  qed
next
  case (4 a b c rest)
  show ?case
  proof (cases ys rule: EncodeToString.cases)
    case 1
    with "4.prems" show ?thesis
      by (simp only: EncodeToString.simps Let_def) simp
  next
    case (2 a')
    with "4.prems" show ?thesis
      by (simp only: EncodeToString.simps Let_def list.inject append_Cons encodeURL_not_pad simp_thms)
  next
    case (3 a' b')
    with "4.prems" show ?thesis
      by (simp only: EncodeToString.simps Let_def list.inject append_Cons encodeURL_not_pad simp_thms)
  next
    case ys: (4 a' b' c' rest')
    with "4.prems" have chars: "encodeURL ! ((unat a * 65536 + unat b * 256 + unat c) div 262144 mod 64)
         = encodeURL ! ((unat a' * 65536 + unat b' * 256 + unat c') div 262144 mod 64)"
      "encodeURL ! ((unat a * 65536 + unat b * 256 + unat c) div 4096 mod 64)
         = encodeURL ! ((unat a' * 65536 + unat b' * 256 + unat c') div 4096 mod 64)"
      "encodeURL ! ((unat a * 65536 + unat b * 256 + unat c) div 64 mod 64)
         = encodeURL ! ((unat a' * 65536 + unat b' * 256 + unat c') div 64 mod 64)"
      "encodeURL ! ((unat a * 65536 + unat b * 256 + unat c) mod 64)
         = encodeURL ! ((unat a' * 65536 + unat b' * 256 + unat c') mod 64)"
      and rest: "EncodeToString rest = EncodeToString rest'"
      by (simp_all only: EncodeToString.simps Let_def list.inject append_Cons append_Nil)
    from three_inj [OF chars] "4.IH" [OF refl rest] ys show ?thesis
      by simp
  qed
qed

lemma generate_refresh_token_inj:
  assumes "generate_refresh_token (Inr f) = Inr token" and "generate_refresh_token (Inr g) = Inr token"
  shows "rand_Read (Inr g) 32 = rand_Read (Inr f) 32"
proof -
  from assms have "EncodeToString (map f [0..<32]) = EncodeToString (map g [0..<32])"
    by (simp add: generate_refresh_token_def rand_Read_def)
  then have "map f [0..<32] = map g [0..<32]"
    by (rule EncodeToString_inj)
  then show ?thesis
    by (simp only: rand_Read_def sum.case)
qed

subsection \<open>Rate limiter\<close>

text \<open>
  C5. With a window of one second and a limit of two, three \<^verbatim>\<open>Allow\<close> calls on one key at
  times \<open>t1 \<le> t2 \<le> t3\<close> inside one window return true, true, false; the rejected call
  leaves the limiter as it was, with the two timestamps of the accepted calls; and a
  call once the window of the first call has elapsed returns true.
\<close>

theorem rate_limiter_two_per_second:
  assumes "t1 \<le> t2" and "t2 \<le> t3" and "t3 < t1 + Second" and "t1 + Second \<le> t4"
  shows "let rl0 = NewRateLimiter (1 * Second) 2;
             (r1, rl1) = RateLimiter_Allow t1 key rl0;
             (r2, rl2) = RateLimiter_Allow t2 key rl1;
             (r3, rl3) = RateLimiter_Allow t3 key rl2;
             (r4, rl4) = RateLimiter_Allow t4 key rl3
         in [r1, r2, r3, r4] = [True, True, False, True]
            \<and> rl3 = rl2 \<and> requests_at rl3 key = [t1, t2]"
  using assms
  by (simp add: RateLimiter_Allow_def NewRateLimiter_def requests_at_def Let_def)

theorem rate_limiter_two_per_second_witness:
  "let rl0 = NewRateLimiter (1 * Second) 2;
       (r1, rl1) = RateLimiter_Allow 0 ''x'' rl0;
       (r2, rl2) = RateLimiter_Allow 400000000 ''x'' rl1;
       (r3, rl3) = RateLimiter_Allow 800000000 ''x'' rl2;
       (r4, rl4) = RateLimiter_Allow 1900000000 ''x'' rl3
   in [r1, r2, r3, r4] = [True, True, False, True]
      \<and> rl3 = rl2 \<and> requests_at rl3 ''x'' = [0, 400000000]"
  using rate_limiter_two_per_second [of 0 400000000 800000000 1900000000 "''x''"]
  by (simp add: Second_def)

subsection \<open>In-memory storage\<close>

lemma fcard_ffilter_le: "fcard (ffilter P A) \<le> fcard A"
  by (rule fcard_mono) auto

lemma apply_op_maxSize: "maxSize (apply_op x s) = maxSize s"
  by (cases x)
    (simp_all add: InMemoryTokenStorage_StoreRefreshToken_def InMemoryTokenStorage_GetTokenInfo_def
      InMemoryTokenStorage_DeleteToken_def cleanup_tick_def split: option.splits)

lemma apply_op_len_tokens:
  assumes "len_tokens s \<le> maxSize s"
  shows "len_tokens (apply_op x s) \<le> maxSize s"
proof (cases x)
  case (OpStore token ti)
  with assms show ?thesis
    by (auto simp: InMemoryTokenStorage_StoreRefreshToken_def len_tokens_def fcard_finsert_if)
next
  case (OpGet token)
  with assms show ?thesis
    by (simp add: InMemoryTokenStorage_GetTokenInfo_def len_tokens_def split: option.splits)
next
  case (OpDelete token)
  with assms show ?thesis
    by (auto simp: InMemoryTokenStorage_DeleteToken_def len_tokens_def fcard_fminus_fsingleton_if)
next
  case (OpTick now)
  have "fcard (ffilter (\<lambda>token. \<not> expired_at now (tokens s) token) (fmdom (tokens s)))
          \<le> fcard (fmdom (tokens s))"
    by (rule fcard_ffilter_le)
  with OpTick assms show ?thesis
    by (simp add: cleanup_tick_def len_tokens_def)
qed

lemma run_ops_len_tokens:
  "len_tokens s \<le> maxSize s \<Longrightarrow>
     len_tokens (run_ops xs s) \<le> maxSize s \<and> maxSize (run_ops xs s) = maxSize s"
proof (induction xs arbitrary: s)
  case Nil
  then show ?case by simp
next
  case (Cons x xs)
  have "len_tokens (apply_op x s) \<le> maxSize (apply_op x s)"
    using Cons.prems apply_op_len_tokens [of s x] by (simp add: apply_op_maxSize)
  from Cons.IH [OF this] show ?case
    by (simp add: apply_op_maxSize)
qed

text \<open>
  C8. A \<^verbatim>\<open>StoreRefreshToken\<close> on an in-memory storage that holds \<^verbatim>\<open>maxSize\<close> records (or
  more) returns the capacity error and leaves the storage as it was; and after any
  history of calls and cleanup firings on a storage made by \<^verbatim>\<open>NewInMemoryTokenStorage\<close>,
  the number of records is at most the ceiling of 10000.
\<close>

theorem in_memory_capacity:
  "(len_tokens s \<ge> maxSize s \<longrightarrow>
      InMemoryTokenStorage_StoreRefreshToken token ti s =
        (Some (Errorf ''token storage is at capacity'' []), s))
   \<and> len_tokens (run_ops xs NewInMemoryTokenStorage) \<le> 10000
   \<and> maxSize (run_ops xs NewInMemoryTokenStorage) = 10000"
proof -
  have "len_tokens NewInMemoryTokenStorage \<le> maxSize NewInMemoryTokenStorage"
    by (simp add: len_tokens_def NewInMemoryTokenStorage_def fcard_fempty)
  from run_ops_len_tokens [OF this, of xs]
  have "len_tokens (run_ops xs NewInMemoryTokenStorage) \<le> 10000
      \<and> maxSize (run_ops xs NewInMemoryTokenStorage) = 10000"
    by (simp add: NewInMemoryTokenStorage_def)
  then show ?thesis
    by (simp add: InMemoryTokenStorage_StoreRefreshToken_def)
qed

theorem in_memory_capacity_witness:
  "len_tokens full_storage \<ge> maxSize full_storage
   \<and> InMemoryTokenStorage_StoreRefreshToken ''b'' sample_info full_storage =
        (Some (Errorf ''token storage is at capacity'' []), full_storage)
   \<and> len_tokens (run_ops [OpStore ''b'' sample_info, OpTick 11] NewInMemoryTokenStorage) \<le> 10000"
proof -
  have full: "len_tokens full_storage \<ge> maxSize full_storage"
    by (simp add: len_tokens_def full_storage_def fcard_finsert_if)
  with in_memory_capacity
         [of full_storage "''b''" sample_info "[OpStore ''b'' sample_info, OpTick 11]"]
  show ?thesis by simp
qed

text \<open>
  C10. \<^verbatim>\<open>GetTokenInfo\<close> of the in-memory storage takes no clock reading: a record whose
  \<^verbatim>\<open>ExpiresAt\<close> lies before \<open>now\<close> is still returned under its key, and the storage is
  left as it was. It is gone once the cleanup ticker has fired at \<open>now\<close>, or once
  \<^verbatim>\<open>DeleteToken\<close> has been called on the key.
\<close>

theorem in_memory_get_ignores_expiry:
  assumes "fmlookup (tokens s) token = Some ti" and "now > ExpiresAt ti"
  shows "InMemoryTokenStorage_GetTokenInfo token s = (Inr ti, s)
    \<and> fst (InMemoryTokenStorage_GetTokenInfo token (cleanup_tick now s))
        = Inl (Errorf ''token not found'' [])
    \<and> fst (InMemoryTokenStorage_GetTokenInfo token
             (snd (InMemoryTokenStorage_DeleteToken token s)))
        = Inl (Errorf ''token not found'' [])"
  using assms
  by (simp add: InMemoryTokenStorage_GetTokenInfo_def cleanup_tick_def expired_at_def
      InMemoryTokenStorage_DeleteToken_def)

theorem in_memory_get_ignores_expiry_witness:
  "ExpiresAt sample_info < 11
   \<and> InMemoryTokenStorage_GetTokenInfo ''a'' full_storage = (Inr sample_info, full_storage)
   \<and> fst (InMemoryTokenStorage_GetTokenInfo ''a'' (cleanup_tick 11 full_storage))
       = Inl (Errorf ''token not found'' [])"
proof -
  have stored: "fmlookup (tokens full_storage) ''a'' = Some sample_info"
    by (simp add: full_storage_def)
  have past: "11 > ExpiresAt sample_info"
    by (simp add: sample_info_def)
  from in_memory_get_ignores_expiry [OF stored past] past show ?thesis
    by simp
qed

subsection \<open>Upstream refresh client\<close>

text \<open>
  C7. When the upstream answers the refresh request and the decoded body has no
  \<^verbatim>\<open>refresh_token\<close>, every token \<^verbatim>\<open>refreshYandexToken\<close> returns carries the refresh token
  of the credential it was called with.
\<close>

theorem refreshYandexToken_keeps_refresh_token:
  assumes "refreshYandexToken (Response code status (Inr resp)) now yandexToken = Inr renewed"
    and "refresh_token resp = []"
  shows "RefreshToken renewed = RefreshToken yandexToken
    \<and> AccessToken renewed = access_token resp"
  using assms
  by (auto simp: refreshYandexToken_def Let_def split: if_splits)

theorem refreshYandexToken_keeps_refresh_token_witness:
  "refreshYandexToken
     (Response 200 ''200 OK'' (Inr \<lparr>access_token = ''acc2'', refresh_token = [], expires_in = 3600\<rparr>))
     5 \<lparr>AccessToken = ''acc1'', RefreshToken = ''ref1'', Expiry = 4\<rparr>
     = Inr \<lparr>AccessToken = ''acc2'', RefreshToken = ''ref1'', Expiry = 3600000000005\<rparr>
   \<and> RefreshToken \<lparr>AccessToken = ''acc2'', RefreshToken = ''ref1'', Expiry = 3600000000005\<rparr>
       = RefreshToken \<lparr>AccessToken = ''acc1'', RefreshToken = ''ref1'', Expiry = 4\<rparr>"
proof -
  have run: "refreshYandexToken
     (Response 200 ''200 OK'' (Inr \<lparr>access_token = ''acc2'', refresh_token = [], expires_in = 3600\<rparr>))
     5 \<lparr>AccessToken = ''acc1'', RefreshToken = ''ref1'', Expiry = 4\<rparr>
     = Inr \<lparr>AccessToken = ''acc2'', RefreshToken = ''ref1'', Expiry = 3600000000005\<rparr>"
    by (simp add: refreshYandexToken_def StatusOK_def seconds_def Second_def)
  from refreshYandexToken_keeps_refresh_token [OF run] run show ?thesis
    by simp
qed

subsection \<open>Encryption at rest\<close>

text \<open>
  C6. For an AEAD that meets its contract, whenever \<^verbatim>\<open>encrypt\<close> of a plaintext returns a
  ciphertext, \<^verbatim>\<open>decrypt\<close> of that ciphertext returns the plaintext. The ciphertext starts
  with the nonce, the \<^verbatim>\<open>NonceSize\<close> bytes read from the random source for this call, and
  what follows the first \<^verbatim>\<open>NonceSize\<close> bytes is the plaintext sealed under that nonce.
\<close>

theorem encrypt_decrypt_roundtrip:
  assumes "aead_correct gcm" and "encrypt gcm rnd P = Inr c"
  shows "decrypt gcm c = Inr P
    \<and> rand_Read rnd (NonceSize gcm) = Inr (take (NonceSize gcm) c)
    \<and> length (take (NonceSize gcm) c) = NonceSize gcm
    \<and> drop (NonceSize gcm) c = seal gcm (take (NonceSize gcm) c) P []"
proof (cases rnd)
  case (Inl err)
  with assms(2) show ?thesis
    by (simp add: encrypt_def rand_Read_def)
next
  case (Inr f)
  with assms show ?thesis
    by (auto simp: encrypt_def decrypt_def rand_Read_def Seal_def Open_def aead_correct_def)
qed

lemma toy_aead_correct: "aead_correct toy_aead"
  by (simp add: aead_correct_def toy_aead_def comp_def)

theorem encrypt_decrypt_roundtrip_witness:
  "aead_correct toy_aead
   \<and> encrypt toy_aead (Inr (\<lambda>i. 7)) [1, 2, 3] =
       Inr (replicate 12 7 @ [2, 3, 4] @ replicate 12 7)
   \<and> decrypt toy_aead (replicate 12 7 @ [2, 3, 4] @ replicate 12 7) = Inr [1, 2, 3]"
proof -
  have nonce: "map (\<lambda>i. 7 :: byte) [0..<12] = replicate 12 7"
    by (simp add: map_replicate_const)
  have sealed: "encrypt toy_aead (Inr (\<lambda>i. 7)) [1, 2, 3] =
       Inr (replicate 12 7 @ [2, 3, 4] @ replicate 12 7)"
    by (simp add: encrypt_def rand_Read_def Seal_def toy_aead_def nonce)
  from encrypt_decrypt_roundtrip [OF toy_aead_correct sealed] toy_aead_correct sealed
  show ?thesis
    by simp
qed

subsection \<open>Rotation worker\<close>

lemma is_store_simps [simp]:
  "is_store (CallStore token ti)" "\<not> is_store (CallGet token)" "\<not> is_store (CallDelete token)"
  by (simp_all add: is_store_def)

lemma process_update_recording:
  "process_update (recording ops) update (st, calls) =
     (case StoreRefreshToken ops (newToken update) (info update) st of
        (Some err, st1) \<Rightarrow> (st1, calls @ [CallStore (newToken update) (info update)])
      | (None, st1) \<Rightarrow>
          (snd (DeleteToken ops (oldToken update) st1),
           calls @ [CallStore (newToken update) (info update), CallDelete (oldToken update)]))"
  by (simp add: process_update_def recording_def split: prod.splits option.splits)

lemma worker_store_calls:
  "filter is_store (snd (tokenUpdateWorker (recording ops) queue (st, calls))) =
     filter is_store calls @ map (\<lambda>u. CallStore (newToken u) (info u)) queue"
proof (induction queue arbitrary: st calls)
  case Nil
  then show ?case by simp
next
  case (Cons u queue)
  obtain r st1 where store: "StoreRefreshToken ops (newToken u) (info u) st = (r, st1)"
    by (cases "StoreRefreshToken ops (newToken u) (info u) st")
  show ?case
  proof (cases r)
    case None
    with store show ?thesis
      by (simp add: process_update_recording Cons.IH)
  next
    case (Some err)
    with store show ?thesis
      by (simp add: process_update_recording Cons.IH)
  qed
qed

text \<open>
  C1. On a storage that records its calls, the worker's handling of one request issues
  \<^verbatim>\<open>StoreRefreshToken(newToken, info)\<close> first. If that returns an error, nothing else is
  called: \<^verbatim>\<open>DeleteToken\<close> is not issued and the store is not tried again. If it returns
  no error, \<^verbatim>\<open>DeleteToken(oldToken)\<close> is the next and last call, and its result does not
  matter. Whatever fails, the worker goes on with the rest of the queue: over a whole
  queue it issues exactly one store per request, in the order of the queue. On the
  in-memory storage a failed store leaves the storage, and so the old session, as it was.
\<close>

theorem worker_stores_then_deletes:
  "process_update (recording ops) update (st, calls) =
     (case StoreRefreshToken ops (newToken update) (info update) st of
        (Some err, st1) \<Rightarrow> (st1, calls @ [CallStore (newToken update) (info update)])
      | (None, st1) \<Rightarrow>
          (snd (DeleteToken ops (oldToken update) st1),
           calls @ [CallStore (newToken update) (info update), CallDelete (oldToken update)]))
   \<and> tokenUpdateWorker ops (update # queue) st
        = tokenUpdateWorker ops queue (process_update ops update st)
   \<and> filter is_store (snd (tokenUpdateWorker (recording ops) queue (st, calls)))
        = filter is_store calls @ map (\<lambda>u. CallStore (newToken u) (info u)) queue
   \<and> (fst (InMemoryTokenStorage_StoreRefreshToken (newToken update) (info update) mem) \<noteq> None
        \<longrightarrow> process_update InMemoryTokenStorage_impl update mem = mem)"
proof -
  have "fst (InMemoryTokenStorage_StoreRefreshToken (newToken update) (info update) mem) \<noteq> None
        \<longrightarrow> process_update InMemoryTokenStorage_impl update mem = mem"
    by (simp add: process_update_def InMemoryTokenStorage_impl_def
        InMemoryTokenStorage_StoreRefreshToken_def)
  then show ?thesis
    by (simp add: process_update_recording worker_store_calls)
qed

lemma len_tokens_full_storage: "len_tokens full_storage = 1"
  by (simp add: len_tokens_def full_storage_def fcard_finsert_if)

lemma len_tokens_limited_storage: "len_tokens limited_storage = 1"
  by (simp add: len_tokens_def limited_storage_def fcard_finsert_if)

theorem worker_stores_then_deletes_witness:
  "fst (InMemoryTokenStorage_StoreRefreshToken ''b'' sample_info full_storage) \<noteq> None
   \<and> process_update InMemoryTokenStorage_impl sample_update full_storage = full_storage
   \<and> process_update (recording InMemoryTokenStorage_impl) sample_update (full_storage, [])
       = (full_storage, [CallStore ''b'' sample_info])
   \<and> process_update (recording InMemoryTokenStorage_impl) sample_update (limited_storage, [])
       = (\<lparr>tokens = fmupd ''b'' sample_info fmempty, maxSize = 2\<rparr>,
          [CallStore ''b'' sample_info, CallDelete ''a''])"
proof -
  have fails: "InMemoryTokenStorage_StoreRefreshToken ''b'' sample_info full_storage
      = (Some (Errorf ''token storage is at capacity'' []), full_storage)"
    by (simp add: InMemoryTokenStorage_StoreRefreshToken_def len_tokens_full_storage)
      (simp add: full_storage_def)
  have succeeds: "InMemoryTokenStorage_StoreRefreshToken ''b'' sample_info limited_storage
      = (None, limited_storage\<lparr>tokens := fmupd ''b'' sample_info (tokens limited_storage)\<rparr>)"
    by (simp add: InMemoryTokenStorage_StoreRefreshToken_def len_tokens_limited_storage)
      (simp add: limited_storage_def sample_info_def)
  have deleted: "fmdrop ''a'' (fmupd ''b'' sample_info (fmupd ''a'' sample_info fmempty))
      = fmupd ''b'' sample_info fmempty"
    by (simp add: fmdrop_fmupd)
  from worker_stores_then_deletes
         [of InMemoryTokenStorage_impl sample_update full_storage "[]" "[]" full_storage]
       worker_stores_then_deletes
         [of InMemoryTokenStorage_impl sample_update limited_storage "[]" "[]" full_storage]
  show ?thesis
    using fails succeeds deleted
    by (simp add: sample_update_def InMemoryTokenStorage_impl_def
        InMemoryTokenStorage_DeleteToken_def limited_storage_def)
qed

subsection \<open>Refresh\<close>

text \<open>
  C3, as the code has it. A \<^verbatim>\<open>RefreshToken\<close> call with the empty token never reaches the
  storage, whose state (and, for a recording storage, whose list of calls) is as before.
  The call is rejected, with \<open>refresh token is required\<close> when the rate limiter admits it
  and with \<open>rate limit exceeded\<close> otherwise. The rate limiter comes first: its state is
  the one \<^verbatim>\<open>Allow("")\<close> leaves, with the timestamp of an admitted call.
\<close>

theorem refresh_empty_token:
  "AuthServer_RefreshToken ops e [] s =
     (Reply (RefreshTokenResponse_Error
        (if fst (RateLimiter_Allow (now_Allow e) [] (rateLimiter s))
         then ''refresh token is required'' else ''rate limit exceeded'')),
      s\<lparr>rateLimiter := snd (RateLimiter_Allow (now_Allow e) [] (rateLimiter s))\<rparr>)"
  by (simp add: AuthServer_RefreshToken_def Let_def split: prod.splits)

theorem refresh_empty_token_witness:
  "AuthServer_RefreshToken InMemoryTokenStorage_impl sample_env []
      (NewAuthServer NewInMemoryTokenStorage) =
     (Reply (RefreshTokenResponse_Error ''refresh token is required''),
      \<lparr>tokenStorage = NewInMemoryTokenStorage, tokenUpdateChan = [],
       rateLimiter = \<lparr>requests = fmupd [] [100] fmempty, window = 1 * Minute, limit = 60\<rparr>\<rparr>)"
  using refresh_empty_token [of InMemoryTokenStorage_impl sample_env
      "NewAuthServer NewInMemoryTokenStorage"]
  by (simp add: NewAuthServer_def RateLimiter_Allow_def NewRateLimiter_def requests_at_def
      sample_env_def Let_def)

text \<open>
  The claim C3 as stated fails: on a new server the call with the empty token is rejected
  as a validation error, and the rate limiter has recorded it.
\<close>

theorem refresh_empty_token_counterexample:
  "fst (AuthServer_RefreshToken InMemoryTokenStorage_impl sample_env []
          (NewAuthServer NewInMemoryTokenStorage))
     = Reply (RefreshTokenResponse_Error ''refresh token is required'')
   \<and> requests_at (rateLimiter (NewAuthServer NewInMemoryTokenStorage)) [] = []
   \<and> requests_at (rateLimiter (snd (AuthServer_RefreshToken InMemoryTokenStorage_impl sample_env []
          (NewAuthServer NewInMemoryTokenStorage)))) [] = [100]
   \<and> rateLimiter (snd (AuthServer_RefreshToken InMemoryTokenStorage_impl sample_env []
          (NewAuthServer NewInMemoryTokenStorage)))
       \<noteq> rateLimiter (NewAuthServer NewInMemoryTokenStorage)"
proof -
  have before: "requests_at (rateLimiter (NewAuthServer NewInMemoryTokenStorage)) [] = []"
    by (simp add: NewAuthServer_def NewRateLimiter_def requests_at_def)
  have after: "requests_at (rateLimiter (snd (AuthServer_RefreshToken InMemoryTokenStorage_impl
          sample_env [] (NewAuthServer NewInMemoryTokenStorage)))) [] = [100]"
    by (simp add: AuthServer_RefreshToken_def Let_def NewAuthServer_def RateLimiter_Allow_def
        NewRateLimiter_def requests_at_def sample_env_def)
  have reply: "fst (AuthServer_RefreshToken InMemoryTokenStorage_impl sample_env []
          (NewAuthServer NewInMemoryTokenStorage))
     = Reply (RefreshTokenResponse_Error ''refresh token is required'')"
    by (simp add: AuthServer_RefreshToken_def Let_def NewAuthServer_def RateLimiter_Allow_def
        NewRateLimiter_def requests_at_def sample_env_def)
  from before after have "rateLimiter (snd (AuthServer_RefreshToken InMemoryTokenStorage_impl
          sample_env [] (NewAuthServer NewInMemoryTokenStorage)))
       \<noteq> rateLimiter (NewAuthServer NewInMemoryTokenStorage)"
    by auto
  with before after reply show ?thesis
    by simp
qed

text \<open>
  C4, as the code has it. When the rate limiter admits the call, the token is not empty,
  the storage returns a session for it and the clock is past the session's \<^verbatim>\<open>ExpiresAt\<close>,
  \<^verbatim>\<open>RefreshToken\<close> answers \<open>refresh token expired\<close> and its calls on the storage are the
  \<^verbatim>\<open>GetTokenInfo\<close> and then one \<^verbatim>\<open>DeleteToken\<close> of the token, whose result it ignores: the
  storage is left as that delete leaves it. After \<^verbatim>\<open>DeleteToken\<close> of the in-memory storage
  the token is not found.
\<close>

theorem refresh_expired_token:
  assumes "fst (RateLimiter_Allow (now_Allow e) req (rateLimiter s))" and "req \<noteq> []"
    and "tokenStorage s = (st, calls)"
    and "GetTokenInfo ops req st = (Inr ti, st1)" and "now_check e > ExpiresAt ti"
  shows "fst (AuthServer_RefreshToken (recording ops) e req s)
           = Reply (RefreshTokenResponse_Error ''refresh token expired'')
    \<and> tokenStorage (snd (AuthServer_RefreshToken (recording ops) e req s))
        = (snd (DeleteToken ops req st1), calls @ [CallGet req, CallDelete req])
    \<and> fst (InMemoryTokenStorage_GetTokenInfo req (snd (InMemoryTokenStorage_DeleteToken req mem)))
        = Inl (Errorf ''token not found'' [])"
proof -
  obtain rl where "RateLimiter_Allow (now_Allow e) req (rateLimiter s) = (True, rl)"
    using assms(1) by (cases "RateLimiter_Allow (now_Allow e) req (rateLimiter s)") simp
  with assms(2-) show ?thesis
    by (simp add: AuthServer_RefreshToken_def Let_def recording_def
        InMemoryTokenStorage_GetTokenInfo_def InMemoryTokenStorage_DeleteToken_def
        split: prod.splits)
qed

theorem refresh_expired_token_witness:
  "fst (AuthServer_RefreshToken (recording InMemoryTokenStorage_impl) sample_env ''a''
          (NewAuthServer (full_storage, [])))
     = Reply (RefreshTokenResponse_Error ''refresh token expired'')
   \<and> tokenStorage (snd (AuthServer_RefreshToken (recording InMemoryTokenStorage_impl) sample_env ''a''
          (NewAuthServer (full_storage, []))))
     = (\<lparr>tokens = fmempty, maxSize = 1\<rparr>, [CallGet ''a'', CallDelete ''a''])"
proof -
  have admitted: "fst (RateLimiter_Allow (now_Allow sample_env) ''a''
      (rateLimiter (NewAuthServer (full_storage, []))))"
    by (simp add: NewAuthServer_def RateLimiter_Allow_def NewRateLimiter_def requests_at_def Let_def)
  have state: "tokenStorage (NewAuthServer (full_storage, [])) = (full_storage, [])"
    by (simp add: NewAuthServer_def)
  have found: "GetTokenInfo InMemoryTokenStorage_impl ''a'' full_storage = (Inr sample_info, full_storage)"
    by (simp add: InMemoryTokenStorage_impl_def InMemoryTokenStorage_GetTokenInfo_def full_storage_def)
  have past: "now_check sample_env > ExpiresAt sample_info"
    by (simp add: sample_env_def sample_info_def)
  have deleted: "snd (DeleteToken InMemoryTokenStorage_impl ''a'' full_storage)
      = \<lparr>tokens = fmempty, maxSize = 1\<rparr>"
    by (simp add: InMemoryTokenStorage_impl_def InMemoryTokenStorage_DeleteToken_def full_storage_def
        fmdrop_fmupd)
  from refresh_expired_token [OF admitted _ state found past, of full_storage] deleted
  show ?thesis by simp
qed

lemma busy_limiter_valid:
  "filter (\<lambda>t. t > 100 + - window busy_limiter) (requests_at busy_limiter ''a'') = map int [1..<61]"
proof -
  have "requests_at busy_limiter ''a'' = map int [1..<61]"
    by (simp add: requests_at_def busy_limiter_def)
  moreover have "filter (\<lambda>t. t > 100 + - window busy_limiter) (map int [1..<61]) = map int [1..<61]"
    by (rule filter_True) (auto simp: busy_limiter_def Minute_def Second_def)
  ultimately show ?thesis by simp
qed

lemma busy_limiter_rejects: "RateLimiter_Allow 100 ''a'' busy_limiter = (False, busy_limiter)"
  unfolding RateLimiter_Allow_def Let_def busy_limiter_valid
  by (simp add: busy_limiter_def)

text \<open>
  The claim C4 as stated fails: the session under \<open>''a''\<close> is stored and expired, but the
  sixty-first call within a minute is answered \<open>rate limit exceeded\<close>, no delete is
  issued and the session stays in the storage.
\<close>

theorem refresh_expired_token_counterexample:
  "fmlookup (tokens full_storage) ''a'' = Some sample_info
   \<and> now_check sample_env > ExpiresAt sample_info
   \<and> AuthServer_RefreshToken InMemoryTokenStorage_impl sample_env ''a''
        \<lparr>tokenStorage = full_storage, tokenUpdateChan = [], rateLimiter = busy_limiter\<rparr>
      = (Reply (RefreshTokenResponse_Error ''rate limit exceeded''),
         \<lparr>tokenStorage = full_storage, tokenUpdateChan = [], rateLimiter = busy_limiter\<rparr>)"
proof -
  have "now_Allow sample_env = 100"
    by (simp add: sample_env_def)
  then show ?thesis
    using busy_limiter_rejects
    by (simp add: AuthServer_RefreshToken_def Let_def)
      (simp add: full_storage_def sample_env_def sample_info_def)
qed

lemma new_tokens_Inr:
  assumes "new_tokens e ti = Inr (a, r, x, y)"
  shows "(\<not> IsYandexUser ti \<longrightarrow> generate_refresh_token (rand_refresh e) = Inr r)
       \<and> (IsYandexUser ti \<longrightarrow>
            (\<exists>tok tok'. YandexToken ti = Some tok
               \<and> refreshYandexToken (yandex_http e) (now_expiry e) tok = Inr tok'
               \<and> r = RefreshToken tok'))"
  using assms
  by (auto simp: new_tokens_def split: if_splits option.splits sum.splits)

lemma refresh_success:
  assumes "AuthServer_RefreshToken ops e req s = (Reply (RefreshTokenResponse_Token d), s')"
  shows "\<exists>ti st a x y.
    GetTokenInfo ops req (tokenStorage s) = (Inr ti, st)
    \<and> new_tokens e ti = Inr (a, resp_RefreshToken d, x, y)
    \<and> (\<exists>ni. tokenUpdateChan s' =
          tokenUpdateChan s @ [\<lparr>oldToken = req, newToken = resp_RefreshToken d, info = ni\<rparr>])"
proof -
  obtain allowed rl where al: "RateLimiter_Allow (now_Allow e) req (rateLimiter s) = (allowed, rl)"
    by (cases "RateLimiter_Allow (now_Allow e) req (rateLimiter s)")
  obtain g st where get: "GetTokenInfo ops req (tokenStorage s) = (g, st)"
    by (cases "GetTokenInfo ops req (tokenStorage s)")
  show ?thesis
  proof (cases g)
    case (Inl err)
    with assms al get show ?thesis
      by (simp add: AuthServer_RefreshToken_def Let_def split: if_splits)
  next
    case (Inr ti)
    show ?thesis
    proof (cases "new_tokens e ti")
      case (Inl early)
      with assms al get Inr show ?thesis
        by (auto simp: AuthServer_RefreshToken_def Let_def new_tokens_def
            split: if_splits option.splits sum.splits)
    next
      case new: (Inr quad)
      obtain a r x y where quad: "quad = (a, r, x, y)"
        by (cases quad)
      with assms al get Inr new show ?thesis
        by (auto simp: AuthServer_RefreshToken_def Let_def split: if_splits)
    qed
  qed
qed

lemma generated_refresh_token:
  assumes "generate_refresh_token rnd = Inr token"
  shows "length token = 44
    \<and> (\<forall>g. generate_refresh_token (Inr g) = Inr token \<longrightarrow> rand_Read (Inr g) 32 = rand_Read rnd 32)"
proof (cases rnd)
  case (Inl err)
  with assms show ?thesis
    by (simp add: generate_refresh_token_def rand_Read_def)
next
  case (Inr f)
  with assms have "length token = 44"
    by (auto simp: generate_refresh_token_def rand_Read_def length_EncodeToString)
  with assms Inr show ?thesis
    using generate_refresh_token_inj [of f token] by blast
qed

text \<open>
  C2, as the code has it. After a successful \<^verbatim>\<open>RefreshToken\<close> the channel holds one more
  request, from the presented token to the refresh token of the reply. For a session
  that is not a Yandex user's, that token is what \<^verbatim>\<open>generate_refresh_token\<close> made of the 32
  bytes read from the random source in this call: it has 44 characters, and any read of
  the random source that gives the same token gave the same 32 bytes. For a Yandex
  user's session it is the refresh token of the credential \<^verbatim>\<open>refreshYandexToken\<close> returned.
\<close>

theorem refresh_new_key:
  assumes "AuthServer_RefreshToken ops e req s = (Reply (RefreshTokenResponse_Token d), s')"
    and "fst (GetTokenInfo ops req (tokenStorage s)) = Inr ti"
  shows "(\<exists>ni. tokenUpdateChan s' =
            tokenUpdateChan s @ [\<lparr>oldToken = req, newToken = resp_RefreshToken d, info = ni\<rparr>])
    \<and> (\<not> IsYandexUser ti \<longrightarrow>
          generate_refresh_token (rand_refresh e) = Inr (resp_RefreshToken d)
          \<and> length (resp_RefreshToken d) = 44
          \<and> (\<forall>g. generate_refresh_token (Inr g) = Inr (resp_RefreshToken d)
                \<longrightarrow> rand_Read (Inr g) 32 = rand_Read (rand_refresh e) 32))
    \<and> (IsYandexUser ti \<longrightarrow>
          (\<exists>tok tok'. YandexToken ti = Some tok
             \<and> refreshYandexToken (yandex_http e) (now_expiry e) tok = Inr tok'
             \<and> resp_RefreshToken d = RefreshToken tok'))"
proof -
  from refresh_success [OF assms(1)] obtain ti' st a x y where
    get: "GetTokenInfo ops req (tokenStorage s) = (Inr ti', st)"
    and new: "new_tokens e ti' = Inr (a, resp_RefreshToken d, x, y)"
    and sent: "\<exists>ni. tokenUpdateChan s' =
          tokenUpdateChan s @ [\<lparr>oldToken = req, newToken = resp_RefreshToken d, info = ni\<rparr>]"
    by blast
  from get assms(2) have same: "ti' = ti"
    by simp
  have local: "\<not> IsYandexUser ti \<longrightarrow>
          generate_refresh_token (rand_refresh e) = Inr (resp_RefreshToken d)
          \<and> length (resp_RefreshToken d) = 44
          \<and> (\<forall>g. generate_refresh_token (Inr g) = Inr (resp_RefreshToken d)
                \<longrightarrow> rand_Read (Inr g) 32 = rand_Read (rand_refresh e) 32)"
    using new_tokens_Inr [OF new] same generated_refresh_token [of "rand_refresh e" "resp_RefreshToken d"]
    by blast
  have delegated: "IsYandexUser ti \<longrightarrow>
          (\<exists>tok tok'. YandexToken ti = Some tok
             \<and> refreshYandexToken (yandex_http e) (now_expiry e) tok = Inr tok'
             \<and> resp_RefreshToken d = RefreshToken tok')"
    using new_tokens_Inr [OF new] same by blast
  from sent local delegated show ?thesis
    by (intro conjI)
qed

lemma refresh_sent:
  assumes "RateLimiter_Allow (now_Allow e) req (rateLimiter s) = (True, rl)" and "req \<noteq> []"
    and "GetTokenInfo ops req (tokenStorage s) = (Inr ti, st)"
    and "\<not> now_check e > ExpiresAt ti"
    and "new_tokens e ti = Inr (a, r, x, y)"
    and "\<not> send_Done e" and "length (tokenUpdateChan s) < chan_cap"
  shows "AuthServer_RefreshToken ops e req s =
    (Reply (RefreshTokenResponse_Token (RefreshTokenResponseData a r x)),
     s\<lparr>rateLimiter := rl, tokenStorage := st,
       tokenUpdateChan := tokenUpdateChan s @
         [\<lparr>oldToken = req, newToken = r,
           info = \<lparr>UserID = UserID ti, PhoneNumber = PhoneNumber ti,
                   CreatedAt = now_CreatedAt e, ExpiresAt = x,
                   IsYandexUser = IsYandexUser ti, YandexToken = y\<rparr>\<rparr>]\<rparr>)"
  using assms
  by (simp add: AuthServer_RefreshToken_def Let_def)

lemma upt_32:
  "[0..<32] = [0, 1, 2, 3, 4, 5, 6, 7, 8, 9, 10, 11, 12, 13, 14, 15, 16, 17, 18, 19, 20, 21,
     22, 23, 24, 25, 26, 27, 28, 29, 30, 31]"
  by code_simp

lemma sample_auth_token:
  "generate_auth_token (Inr (\<lambda>i. word_of_nat i)) phone hash
     = Inr ''AAECAwQFBgcICQoLDA0ODxAREhMUFRYXGBkaGxwdHh8=''"
  by (simp add: generate_auth_token_def rand_Read_def upt_32 Let_def encodeURL_def)

lemma sample_refresh_token:
  "generate_refresh_token (Inr (\<lambda>i. word_of_nat (255 - i)))
     = Inr ''__79_Pv6-fj39vX08_Lx8O_u7ezr6uno5-bl5OPi4eA=''"
  by (simp add: generate_refresh_token_def rand_Read_def upt_32 Let_def encodeURL_def)

lemma early_refresh:
  "AuthServer_RefreshToken InMemoryTokenStorage_impl early_env ''a'' (NewAuthServer limited_storage)
   = (Reply (RefreshTokenResponse_Token (RefreshTokenResponseData
        ''AAECAwQFBgcICQoLDA0ODxAREhMUFRYXGBkaGxwdHh8=''
        ''__79_Pv6-fj39vX08_Lx8O_u7ezr6uno5-bl5OPi4eA='' 86400000000003)),
      \<lparr>tokenStorage = limited_storage,
       tokenUpdateChan =
         [\<lparr>oldToken = ''a'', newToken = ''__79_Pv6-fj39vX08_Lx8O_u7ezr6uno5-bl5OPi4eA='',
           info = \<lparr>UserID = ''+70000000000'', PhoneNumber = ''+70000000000'', CreatedAt = 4,
                   ExpiresAt = 86400000000003, IsYandexUser = False, YandexToken = None\<rparr>\<rparr>],
       rateLimiter = \<lparr>requests = fmupd ''a'' [1] fmempty, window = 1 * Minute, limit = 60\<rparr>\<rparr>)"
proof -
  have get: "GetTokenInfo InMemoryTokenStorage_impl ''a'' (tokenStorage (NewAuthServer limited_storage))
      = (Inr sample_info, limited_storage)"
    by (simp add: InMemoryTokenStorage_impl_def InMemoryTokenStorage_GetTokenInfo_def
        limited_storage_def NewAuthServer_def)
  have new: "new_tokens early_env sample_info =
      Inr (''AAECAwQFBgcICQoLDA0ODxAREhMUFRYXGBkaGxwdHh8='',
           ''__79_Pv6-fj39vX08_Lx8O_u7ezr6uno5-bl5OPi4eA='', 86400000000003, None)"
    by (simp add: new_tokens_def early_env_def sample_env_def sample_auth_token
        sample_refresh_token sample_info_def Hour_def Minute_def Second_def)
  have al: "RateLimiter_Allow (now_Allow early_env) ''a'' (rateLimiter (NewAuthServer limited_storage))
     = (True, \<lparr>requests = fmupd ''a'' [1] fmempty, window = 1 * Minute, limit = 60\<rparr>)"
    by (simp add: RateLimiter_Allow_def NewRateLimiter_def requests_at_def Let_def early_env_def
        sample_env_def NewAuthServer_def)
  have live: "\<not> now_check early_env > ExpiresAt sample_info" and sent: "\<not> send_Done early_env"
    by (simp_all add: early_env_def sample_env_def sample_info_def)
  have room: "length (tokenUpdateChan (NewAuthServer limited_storage)) < chan_cap"
    by (simp add: NewAuthServer_def chan_cap_def)
  have "''a'' \<noteq> []"
    by simp
  from refresh_sent [OF al this get live new sent room] show ?thesis
    by (simp add: NewAuthServer_def sample_info_def early_env_def sample_env_def)
qed

theorem refresh_new_key_witness:
  "AuthServer_RefreshToken InMemoryTokenStorage_impl early_env ''a'' (NewAuthServer limited_storage)
   = (Reply (RefreshTokenResponse_Token (RefreshTokenResponseData
        ''AAECAwQFBgcICQoLDA0ODxAREhMUFRYXGBkaGxwdHh8=''
        ''__79_Pv6-fj39vX08_Lx8O_u7ezr6uno5-bl5OPi4eA='' 86400000000003)),
      \<lparr>tokenStorage = limited_storage,
       tokenUpdateChan =
         [\<lparr>oldToken = ''a'', newToken = ''__79_Pv6-fj39vX08_Lx8O_u7ezr6uno5-bl5OPi4eA='',
           info = \<lparr>UserID = ''+70000000000'', PhoneNumber = ''+70000000000'', CreatedAt = 4,
                   ExpiresAt = 86400000000003, IsYandexUser = False, YandexToken = None\<rparr>\<rparr>],
       rateLimiter = \<lparr>requests = fmupd ''a'' [1] fmempty, window = 1 * Minute, limit = 60\<rparr>\<rparr>)
   \<and> fst (GetTokenInfo InMemoryTokenStorage_impl ''a'' (tokenStorage (NewAuthServer limited_storage)))
       = Inr sample_info
   \<and> \<not> IsYandexUser sample_info
   \<and> generate_refresh_token (rand_refresh early_env)
       = Inr ''__79_Pv6-fj39vX08_Lx8O_u7ezr6uno5-bl5OPi4eA=''"
proof -
  have get: "fst (GetTokenInfo InMemoryTokenStorage_impl ''a''
      (tokenStorage (NewAuthServer limited_storage))) = Inr sample_info"
    by (simp add: InMemoryTokenStorage_impl_def InMemoryTokenStorage_GetTokenInfo_def
        limited_storage_def NewAuthServer_def)
  have local: "\<not> IsYandexUser sample_info"
    by (simp add: sample_info_def)
  from refresh_new_key [OF early_refresh get] early_refresh get local show ?thesis
    by simp
qed

lemma yandex_new_tokens:
  assumes "yandex_http e = Response 200 ''200 OK''
        (Inr \<lparr>access_token = ''acc2'', refresh_token = [], expires_in = 3600\<rparr>)"
    and "\<not> refresh_Done e"
    and "IsYandexUser ti"
    and "YandexToken ti = Some \<lparr>AccessToken = ''acc1'', RefreshToken = ''ref1'', Expiry = 1000\<rparr>"
  shows "new_tokens e ti =
     Inr (''acc2'', ''ref1'', now_expiry e + 3600000000000,
          Some \<lparr>AccessToken = ''acc2'', RefreshToken = ''ref1'',
                Expiry = now_expiry e + 3600000000000\<rparr>)"
  using assms
  by (simp add: new_tokens_def refreshYandexToken_def StatusOK_def seconds_def Second_def)

lemma first_refresh:
  "AuthServer_RefreshToken InMemoryTokenStorage_impl sample_env ''ref1'' (NewAuthServer two_logins)
   = (Reply (RefreshTokenResponse_Token (RefreshTokenResponseData ''acc2'' ''ref1'' 3600000000102)),
      \<lparr>tokenStorage = two_logins,
       tokenUpdateChan = [\<lparr>oldToken = ''ref1'', newToken = ''ref1'', info = rotated_info 103 3600000000102\<rparr>],
       rateLimiter = \<lparr>requests = fmupd ''ref1'' [100] fmempty, window = 1 * Minute, limit = 60\<rparr>\<rparr>)"
proof -
  have get: "GetTokenInfo InMemoryTokenStorage_impl ''ref1'' (tokenStorage (NewAuthServer two_logins))
      = (Inr yandex_info, two_logins)"
    by (simp add: InMemoryTokenStorage_impl_def InMemoryTokenStorage_GetTokenInfo_def
        two_logins_def login_key_def NewAuthServer_def)
  have new: "new_tokens sample_env yandex_info = Inr (''acc2'', ''ref1'', 3600000000102,
       Some \<lparr>AccessToken = ''acc2'', RefreshToken = ''ref1'', Expiry = 3600000000102\<rparr>)"
    using yandex_new_tokens [of sample_env yandex_info] by (simp add: sample_env_def yandex_info_def)
  have al: "RateLimiter_Allow (now_Allow sample_env) ''ref1'' (rateLimiter (NewAuthServer two_logins))
     = (True, \<lparr>requests = fmupd ''ref1'' [100] fmempty, window = 1 * Minute, limit = 60\<rparr>)"
    by (simp add: RateLimiter_Allow_def NewRateLimiter_def requests_at_def Let_def sample_env_def
        NewAuthServer_def)
  have live: "\<not> now_check sample_env > ExpiresAt yandex_info" and sent: "\<not> send_Done sample_env"
    by (simp_all add: sample_env_def yandex_info_def)
  have room: "length (tokenUpdateChan (NewAuthServer two_logins)) < chan_cap"
    by (simp add: NewAuthServer_def chan_cap_def)
  have "''ref1'' \<noteq> []"
    by simp
  from refresh_sent [OF al this get live new sent room] show ?thesis
    by (simp add: NewAuthServer_def yandex_info_def sample_env_def rotated_info_def)
qed

lemma len_two_logins: "len_tokens two_logins = 2"
  by (simp add: len_tokens_def two_logins_def login_key_def fcard_finsert_if fcard_fempty)

lemma first_rotated_eq:
  "first_rotated =
     \<lparr>tokenStorage = \<lparr>tokens = fmupd login_key login_info fmempty, maxSize = 10000\<rparr>,
      tokenUpdateChan = [],
      rateLimiter = \<lparr>requests = fmupd ''ref1'' [100] fmempty, window = 1 * Minute, limit = 60\<rparr>\<rparr>"
proof -
  have store: "InMemoryTokenStorage_StoreRefreshToken ''ref1'' (rotated_info 103 3600000000102) two_logins
     = (None, two_logins\<lparr>tokens := fmupd ''ref1'' (rotated_info 103 3600000000102) (tokens two_logins)\<rparr>)"
    by (simp add: InMemoryTokenStorage_StoreRefreshToken_def len_two_logins)
       (simp add: two_logins_def rotated_info_def)
  have "process_update InMemoryTokenStorage_impl
          \<lparr>oldToken = ''ref1'', newToken = ''ref1'', info = rotated_info 103 3600000000102\<rparr> two_logins
        = \<lparr>tokens = fmupd login_key login_info fmempty, maxSize = 10000\<rparr>"
    by (simp add: process_update_def InMemoryTokenStorage_impl_def store
        InMemoryTokenStorage_DeleteToken_def)
      (simp add: two_logins_def login_key_def fmdrop_fmupd)
  then show ?thesis
    unfolding first_rotated_def first_refresh drain_def
    by simp
qed

lemma second_refresh:
  "AuthServer_RefreshToken InMemoryTokenStorage_impl later_env login_key first_rotated
   = (Reply (RefreshTokenResponse_Token (RefreshTokenResponseData ''acc2'' ''ref1'' 3600000000202)),
      first_rotated
      \<lparr>tokenUpdateChan :=
         [\<lparr>oldToken = login_key, newToken = ''ref1'', info = rotated_info 203 3600000000202\<rparr>],
       rateLimiter :=
         \<lparr>requests = fmupd login_key [200] (fmupd ''ref1'' [100] fmempty),
          window = 1 * Minute, limit = 60\<rparr>\<rparr>)"
proof -
  have get: "GetTokenInfo InMemoryTokenStorage_impl login_key (tokenStorage first_rotated)
      = (Inr login_info, tokenStorage first_rotated)"
    by (simp add: InMemoryTokenStorage_impl_def InMemoryTokenStorage_GetTokenInfo_def
        first_rotated_eq)
  have new: "new_tokens later_env login_info = Inr (''acc2'', ''ref1'', 3600000000202,
       Some \<lparr>AccessToken = ''acc2'', RefreshToken = ''ref1'', Expiry = 3600000000202\<rparr>)"
    using yandex_new_tokens [of later_env login_info]
    by (simp add: later_env_def sample_env_def login_info_def)
  have al: "RateLimiter_Allow (now_Allow later_env) login_key (rateLimiter first_rotated)
     = (True, \<lparr>requests = fmupd login_key [200] (fmupd ''ref1'' [100] fmempty),
               window = 1 * Minute, limit = 60\<rparr>)"
    by (simp add: RateLimiter_Allow_def requests_at_def Let_def later_env_def first_rotated_eq
        login_key_def)
  have live: "\<not> now_check later_env > ExpiresAt login_info" and sent: "\<not> send_Done later_env"
    by (simp_all add: later_env_def sample_env_def login_info_def Hour_def Minute_def Second_def)
  have room: "length (tokenUpdateChan first_rotated) < chan_cap"
    by (simp add: first_rotated_eq chan_cap_def)
  have "login_key \<noteq> []"
    by (simp add: login_key_def)
  from refresh_sent [OF al this get live new sent room] show ?thesis
    by (simp add: first_rotated_eq login_info_def later_env_def rotated_info_def)
qed

lemma second_rotated_eq:
  "tokens (tokenStorage second_rotated) = fmupd ''ref1'' (rotated_info 203 3600000000202) fmempty"
proof -
  have store: "InMemoryTokenStorage_StoreRefreshToken ''ref1'' (rotated_info 203 3600000000202)
        (tokenStorage first_rotated)
     = (None, (tokenStorage first_rotated)
          \<lparr>tokens := fmupd ''ref1'' (rotated_info 203 3600000000202)
             (tokens (tokenStorage first_rotated))\<rparr>)"
    by (simp add: InMemoryTokenStorage_StoreRefreshToken_def first_rotated_eq len_tokens_def
        fcard_finsert_if fcard_fempty rotated_info_def)
  have "process_update InMemoryTokenStorage_impl
          \<lparr>oldToken = login_key, newToken = ''ref1'', info = rotated_info 203 3600000000202\<rparr>
          (tokenStorage first_rotated)
        = \<lparr>tokens = fmupd ''ref1'' (rotated_info 203 3600000000202) fmempty, maxSize = 10000\<rparr>"
    by (simp add: process_update_def InMemoryTokenStorage_impl_def store
        InMemoryTokenStorage_DeleteToken_def)
      (simp add: first_rotated_eq login_key_def fmdrop_fmupd)
  then show ?thesis
    unfolding second_rotated_def second_refresh drain_def
    by simp
qed

text \<open>
  The claim C2 as stated fails for the sessions of Yandex users. The key \<open>''ref1''\<close> is
  live, the rotation of the first refresh deletes it, and the refresh of the other
  session is answered with \<open>''ref1''\<close> again, which is the refresh token of the upstream
  credential and not what the random source of that call gives; its rotation puts a
  session under \<open>''ref1''\<close> once more.
\<close>

theorem refresh_new_key_counterexample:
  "fmlookup (tokens two_logins) ''ref1'' = Some yandex_info
   \<and> fmlookup (tokens (tokenStorage first_rotated)) ''ref1'' = None
   \<and> fst (AuthServer_RefreshToken InMemoryTokenStorage_impl later_env login_key first_rotated)
       = Reply (RefreshTokenResponse_Token (RefreshTokenResponseData ''acc2'' ''ref1'' 3600000000202))
   \<and> generate_refresh_token (rand_refresh later_env)
       = Inr ''__79_Pv6-fj39vX08_Lx8O_u7ezr6uno5-bl5OPi4eA=''
   \<and> fmlookup (tokens (tokenStorage second_rotated)) ''ref1''
       = Some (rotated_info 203 3600000000202)"
proof -
  have live: "fmlookup (tokens two_logins) ''ref1'' = Some yandex_info"
    by (simp add: two_logins_def login_key_def)
  have deleted: "fmlookup (tokens (tokenStorage first_rotated)) ''ref1'' = None"
    by (simp add: first_rotated_eq login_key_def)
  have reply: "fst (AuthServer_RefreshToken InMemoryTokenStorage_impl later_env login_key first_rotated)
       = Reply (RefreshTokenResponse_Token (RefreshTokenResponseData ''acc2'' ''ref1'' 3600000000202))"
    unfolding second_refresh by simp
  have random: "generate_refresh_token (rand_refresh later_env)
       = Inr ''__79_Pv6-fj39vX08_Lx8O_u7ezr6uno5-bl5OPi4eA=''"
    by (simp add: later_env_def sample_env_def sample_refresh_token)
  have again: "fmlookup (tokens (tokenStorage second_rotated)) ''ref1''
       = Some (rotated_info 203 3600000000202)"
    by (simp add: second_rotated_eq)
  from live deleted reply random again show ?thesis
    by (intro conjI)
qed

subsection \<open>Sign-up and sign-in\<close>

text \<open>
  C9. \<^verbatim>\<open>SignIn\<close> and \<^verbatim>\<open>SignUp\<close> check nothing. When both random reads succeed and the
  storage accepts the new session, the reply is the token pair made from the random
  bytes; the whole outcome is the same for every password hash; and
  \<^verbatim>\<open>generate_auth_token\<close> gives the same token for every phone number and password hash.
\<close>

theorem sign_in_up_no_verification:
  assumes "rand_auth e = Inr f" and "rand_refresh e = Inr g"
    and "fst (StoreRefreshToken ops (EncodeToString (map g [0..<32]))
           \<lparr>UserID = phone, PhoneNumber = phone, CreatedAt = now_CreatedAt e,
            ExpiresAt = now_expiry e + 30 * 24 * Hour, IsYandexUser = False, YandexToken = None\<rparr>
           (tokenStorage s)) = None"
  shows "fst (AuthServer_SignIn ops e phone hash s) =
           Reply (SignInResponse_Token (RefreshTokenResponseData (EncodeToString (map f [0..<32]))
             (EncodeToString (map g [0..<32])) (now_reply e + 24 * Hour)))
     \<and> fst (AuthServer_SignUp ops e phone hash s) =
           Reply (SignUpResponse_Token (RefreshTokenResponseData (EncodeToString (map f [0..<32]))
             (EncodeToString (map g [0..<32])) (now_reply e + 24 * Hour)))
     \<and> AuthServer_SignIn ops e phone hash' s = AuthServer_SignIn ops e phone hash s
     \<and> AuthServer_SignUp ops e phone hash' s = AuthServer_SignUp ops e phone hash s
     \<and> generate_auth_token rnd phone' hash' = generate_auth_token rnd phone hash"
proof -
  let ?ti = "\<lparr>UserID = phone, PhoneNumber = phone, CreatedAt = now_CreatedAt e,
            ExpiresAt = now_expiry e + 30 * 24 * Hour, IsYandexUser = False, YandexToken = None\<rparr>"
  obtain st where
    "StoreRefreshToken ops (EncodeToString (map g [0..<32])) ?ti (tokenStorage s) = (None, st)"
    using assms(3)
    by (cases "StoreRefreshToken ops (EncodeToString (map g [0..<32])) ?ti (tokenStorage s)") simp
  with assms(1,2) show ?thesis
    by (simp add: AuthServer_SignIn_def AuthServer_SignUp_def generate_auth_token_def
        generate_refresh_token_def rand_Read_def Let_def)
qed

theorem sign_in_up_no_verification_witness:
  "fst (AuthServer_SignIn InMemoryTokenStorage_impl sample_env ''+70000000000'' ''right''
          (NewAuthServer NewInMemoryTokenStorage))
     = Reply (SignInResponse_Token (RefreshTokenResponseData
         ''AAECAwQFBgcICQoLDA0ODxAREhMUFRYXGBkaGxwdHh8=''
         ''__79_Pv6-fj39vX08_Lx8O_u7ezr6uno5-bl5OPi4eA='' 86400000000104))
   \<and> AuthServer_SignIn InMemoryTokenStorage_impl sample_env ''+70000000000'' ''wrong''
          (NewAuthServer NewInMemoryTokenStorage)
     = AuthServer_SignIn InMemoryTokenStorage_impl sample_env ''+70000000000'' ''right''
          (NewAuthServer NewInMemoryTokenStorage)"
proof -
  have auth: "rand_auth sample_env = Inr (\<lambda>i. word_of_nat i)"
    and refresh: "rand_refresh sample_env = Inr (\<lambda>i. word_of_nat (255 - i))"
    by (simp_all add: sample_env_def)
  have stored: "fst (StoreRefreshToken InMemoryTokenStorage_impl
           (EncodeToString (map (\<lambda>i. word_of_nat (255 - i)) [0..<32]))
           \<lparr>UserID = ''+70000000000'', PhoneNumber = ''+70000000000'',
            CreatedAt = now_CreatedAt sample_env,
            ExpiresAt = now_expiry sample_env + 30 * 24 * Hour, IsYandexUser = False,
            YandexToken = None\<rparr>
           (tokenStorage (NewAuthServer NewInMemoryTokenStorage))) = None"
    by (simp add: InMemoryTokenStorage_impl_def InMemoryTokenStorage_StoreRefreshToken_def
        NewAuthServer_def NewInMemoryTokenStorage_def len_tokens_def fcard_fempty)
  have tokens: "EncodeToString (map (\<lambda>i. word_of_nat i) [0..<32])
        = ''AAECAwQFBgcICQoLDA0ODxAREhMUFRYXGBkaGxwdHh8=''"
      "EncodeToString (map (\<lambda>i. word_of_nat (255 - i)) [0..<32])
        = ''__79_Pv6-fj39vX08_Lx8O_u7ezr6uno5-bl5OPi4eA=''"
    using sample_auth_token [of "[]" "[]"] sample_refresh_token
    by (simp_all add: generate_auth_token_def generate_refresh_token_def rand_Read_def)
  have reply: "now_reply sample_env + 24 * Hour = 86400000000104"
    by (simp add: sample_env_def Hour_def Minute_def Second_def)
  from sign_in_up_no_verification [OF auth refresh stored, of "''right''" "''wrong''"]
  show ?thesis
    by (simp only: tokens reply)
qed

end
